theory Spec2Isabelle
  imports Complex_Main "HOL-Library.Word" "HOL-Library.Sublist"
begin

section \<open>Preflight checks of the installer (pkg/preflight/checks.go)\<close>

text \<open>
  The five checks of package \<open>preflight\<close> are embedded as functions from an
  environment (the external command runner and the file system the checks read)
  to the pair \<open>(msg, err)\<close> that \<open>Run\<close> returns. Go strings are byte sequences,
  so they are \<open>string\<close> (a list of 8-bit characters); \<open>int\<close> and \<open>uint\<close> are 64 bits
  wide on the platforms the installer is built for (amd64, arm64).
\<close>

subsection \<open>Thresholds\<close>

definition MinCPUTest :: int where "MinCPUTest = 8"
definition MinCPUProd :: int where "MinCPUProd = 16"
definition MinMemoryTest :: int where "MinMemoryTest = 32"
definition MinMemoryProd :: int where "MinMemoryProd = 64"
definition MinNetworkGbpsTest :: int where "MinNetworkGbpsTest = 1"
definition MinNetworkGbpsProd :: int where "MinNetworkGbpsProd = 10"

subsection \<open>Errors\<close>

text \<open>
  An error value is either one handed back by a collaborator (\<open>os/exec\<close>, \<open>os\<close>),
  of which the checks only observe the identity and whether
  \<open>errors.Is(err, fs.ErrNotExist)\<close> holds, or one the package builds itself with
  \<open>errors.New\<close> or \<open>fmt.Errorf\<close>, or the \<open>*NumError\<close> of \<open>strconv\<close>.
\<close>

datatype num_err = ErrSyntax | ErrRange

datatype error =
    ExternalError string bool
  | ErrorString string
  | NumError string string num_err

fun is_ErrNotExist :: "error \<Rightarrow> bool" where
  "is_ErrNotExist (ExternalError txt ne) = ne"
| "is_ErrNotExist (ErrorString txt) = False"
| "is_ErrNotExist (NumError f s e) = False"

subsection \<open>Bytes, runes and white space\<close>

definition byte :: "char \<Rightarrow> nat" where
  "byte c = of_char c"

text \<open>
  \<open>unicode.IsSpace\<close> and the \<open>isSpace\<close> of package \<open>fmt\<close> accept the same runes:
  U+0009..U+000D, U+0020, U+0085, U+00A0, U+1680, U+2000..U+200A, U+2028, U+2029,
  U+202F, U+205F and U+3000. The table lists their UTF-8 encodings; a decoded rune
  is one of them exactly when the bytes at that position are its encoding.
\<close>

definition space_encodings :: "nat list list" where
  "space_encodings =
     [[0x09], [0x0A], [0x0B], [0x0C], [0x0D], [0x20],
      [0xC2, 0x85], [0xC2, 0xA0],
      [0xE1, 0x9A, 0x80],
      [0xE2, 0x80, 0x80], [0xE2, 0x80, 0x81], [0xE2, 0x80, 0x82], [0xE2, 0x80, 0x83],
      [0xE2, 0x80, 0x84], [0xE2, 0x80, 0x85], [0xE2, 0x80, 0x86], [0xE2, 0x80, 0x87],
      [0xE2, 0x80, 0x88], [0xE2, 0x80, 0x89], [0xE2, 0x80, 0x8A],
      [0xE2, 0x80, 0xA8], [0xE2, 0x80, 0xA9], [0xE2, 0x80, 0xAF],
      [0xE2, 0x81, 0x9F],
      [0xE3, 0x80, 0x80]]"

text \<open>Width in bytes of the white-space rune a string starts with (ends with); 0 if none.\<close>

definition space_width :: "string \<Rightarrow> nat" where
  "space_width s =
     (case find (\<lambda>e. prefix e (map byte s)) space_encodings of
        None \<Rightarrow> 0 | Some e \<Rightarrow> length e)"

definition space_width_end :: "string \<Rightarrow> nat" where
  "space_width_end s =
     (case find (\<lambda>e. suffix e (map byte s)) space_encodings of
        None \<Rightarrow> 0 | Some e \<Rightarrow> length e)"

text \<open>
  \<open>utf8.DecodeRune\<close>: the width of the well-formed encoding a string starts with,
  or \<open>None\<close> where Go yields \<open>(RuneError, 1)\<close>.
\<close>

definition cont :: "nat \<Rightarrow> bool" where
  "cont b = (0x80 \<le> b \<and> b \<le> 0xBF)"

fun rune_len :: "nat list \<Rightarrow> nat option" where
  "rune_len [] = None"
| "rune_len (b0 # bs) =
     (if b0 < 0x80 then Some 1
      else if 0xC2 \<le> b0 \<and> b0 \<le> 0xDF then
        (case bs of b1 # _ \<Rightarrow> if cont b1 then Some 2 else None | _ \<Rightarrow> None)
      else if 0xE0 \<le> b0 \<and> b0 \<le> 0xEF then
        (case bs of b1 # b2 # _ \<Rightarrow>
           if (if b0 = 0xE0 then 0xA0 \<le> b1 \<and> b1 \<le> 0xBF
               else if b0 = 0xED then 0x80 \<le> b1 \<and> b1 \<le> 0x9F
               else cont b1) \<and> cont b2
           then Some 3 else None
         | _ \<Rightarrow> None)
      else if 0xF0 \<le> b0 \<and> b0 \<le> 0xF4 then
        (case bs of b1 # b2 # b3 # _ \<Rightarrow>
           if (if b0 = 0xF0 then 0x90 \<le> b1 \<and> b1 \<le> 0xBF
               else if b0 = 0xF4 then 0x80 \<le> b1 \<and> b1 \<le> 0x8F
               else cont b1) \<and> cont b2 \<and> cont b3
           then Some 4 else None
         | _ \<Rightarrow> None)
      else None)"

subsection \<open>strings.TrimSpace\<close>

function TrimLeft :: "string \<Rightarrow> string" where
  "TrimLeft s = (if space_width s = 0 then s else TrimLeft (drop (space_width s) s))"
  by pat_completeness auto
termination
proof (relation "measure length")
  show "wf (measure length)" by simp
next
  fix s :: string
  assume "space_width s \<noteq> 0"
  then have "s \<noteq> []"
    by (cases s) (auto simp: space_width_def space_encodings_def)
  with \<open>space_width s \<noteq> 0\<close>
  show "(drop (space_width s) s, s) \<in> measure length" by simp
qed

function TrimRight :: "string \<Rightarrow> string" where
  "TrimRight s =
     (if space_width_end s = 0 then s
      else TrimRight (take (length s - space_width_end s) s))"
  by pat_completeness auto
termination
proof (relation "measure length")
  show "wf (measure length)" by simp
next
  fix s :: string
  assume "space_width_end s \<noteq> 0"
  then have "s \<noteq> []"
    by (cases s) (auto simp: space_width_end_def space_encodings_def)
  with \<open>space_width_end s \<noteq> 0\<close>
  show "(take (length s - space_width_end s) s, s) \<in> measure length" by simp
qed

declare TrimLeft.simps [simp del] TrimRight.simps [simp del]

definition TrimSpace :: "string \<Rightarrow> string" where
  "TrimSpace s = TrimRight (TrimLeft s)"

subsection \<open>strconv.Atoi\<close>

definition is_digit :: "char \<Rightarrow> bool" where
  "is_digit c = (48 \<le> byte c \<and> byte c \<le> 57)"

definition digit_val :: "char \<Rightarrow> int" where
  "digit_val c = int (byte c) - 48"

text \<open>
  The value of a run of decimal digits, for the token of digits that \<open>Sscanf\<close> reads;
  \<open>None\<close> if another byte occurs.
\<close>

fun parse_digits :: "int \<Rightarrow> string \<Rightarrow> int option" where
  "parse_digits acc [] = Some acc"
| "parse_digits acc (c # cs) =
     (if is_digit c then parse_digits (acc * 10 + digit_val c) cs else None)"

text \<open>
  \<open>strconv.ParseUint\<close> for base 10 and 64 bits reads the bytes in order. A byte that
  is not a decimal digit ends it with 0 and a syntax error; a digit that takes the
  value past \<open>2 ^ 64 - 1\<close> ends it at once with \<open>2 ^ 64 - 1\<close> and a range error, so
  the bytes after that digit are never looked at.
\<close>

definition maxUint64 :: int where
  "maxUint64 = 2 ^ 64 - 1"

text \<open>The smallest number whose tenfold is more than \<open>maxUint64\<close>.\<close>

definition cutoff :: int where
  "cutoff = maxUint64 div 10 + 1"

fun ParseUint_loop :: "int \<Rightarrow> string \<Rightarrow> int \<times> num_err option" where
  "ParseUint_loop n [] = (n, None)"
| "ParseUint_loop n (c # cs) =
     (if \<not> is_digit c then (0, Some ErrSyntax)
      else if cutoff \<le> n then (maxUint64, Some ErrRange)
      else let n1 = n * 10 + digit_val c in
           if maxUint64 < n1 then (maxUint64, Some ErrRange)
           else ParseUint_loop n1 cs)"

definition ParseUint :: "string \<Rightarrow> int \<times> num_err option" where
  "ParseUint s = (if s = [] then (0, Some ErrSyntax) else ParseUint_loop 0 s)"

text \<open>
  \<open>strconv.ParseInt\<close> for base 10 and 64 bits: an optional sign, then \<open>ParseUint\<close>
  on the rest. A syntax error gives 0; a magnitude outside the signed range, which
  includes the \<open>2 ^ 64 - 1\<close> of a range error of \<open>ParseUint\<close>, gives the nearest bound
  of the signed range and a range error.
\<close>

definition ParseInt :: "string \<Rightarrow> int \<times> num_err option" where
  "ParseInt s =
     (case s of
        [] \<Rightarrow> (0, Some ErrSyntax)
      | c # cs \<Rightarrow>
          let neg = (c = CHR ''-'');
              s1 = (if c = CHR ''+'' \<or> c = CHR ''-'' then cs else s);
              (un, err) = ParseUint s1
          in if err = Some ErrSyntax then (0, Some ErrSyntax)
             else if \<not> neg \<and> 2 ^ 63 \<le> un then (2 ^ 63 - 1, Some ErrRange)
             else if neg \<and> 2 ^ 63 < un then (- (2 ^ 63), Some ErrRange)
             else (if neg then - un else un, None))"

text \<open>
  \<open>Atoi\<close> is \<open>ParseInt\<close> with the error renamed. Its own loop for texts of fewer
  than 19 bytes gives the same results, as so few digits cannot leave the range.
\<close>

definition Atoi :: "string \<Rightarrow> int \<times> error option" where
  "Atoi s = (case ParseInt s of (i, err) \<Rightarrow> (i, map_option (NumError ''Atoi'' s) err))"

subsection \<open>The verbs of fmt.Sprintf the checks use\<close>

function digits10 :: "int \<Rightarrow> string" where
  "digits10 n =
     (if n < 10 then [char_of (48 + n)]
      else digits10 (n div 10) @ [char_of (48 + n mod 10)])"
  by pat_completeness auto
termination
  by (relation "measure nat") auto

declare digits10.simps [simp del]

text \<open>\<open>%d\<close> of a signed and of an unsigned integer.\<close>

definition fmt_d :: "int \<Rightarrow> string" where
  "fmt_d i = (if i < 0 then CHR ''-'' # digits10 (- i) else digits10 i)"

definition fmt_du :: "64 word \<Rightarrow> string" where
  "fmt_du w = digits10 (uint w)"

subsection \<open>The collaborators\<close>

text \<open>
  \<open>execCommand(name, args...).Output()\<close> yields the captured standard output and an
  error (non-nil when the command could not be run or exited with a non-zero status).
  \<open>os_Open\<close> and \<open>os_ReadFile\<close> yield an error or the bytes of the file;
  \<open>os_Stat\<close> yields the error of the call.
\<close>

record env =
  execCommand :: "string \<Rightarrow> string list \<Rightarrow> string \<times> error option"
  os_Open :: "string \<Rightarrow> error + string"
  os_ReadFile :: "string \<Rightarrow> error + string"
  os_Stat :: "string \<Rightarrow> error option"

definition procMemInfo :: string where "procMemInfo = ''/proc/meminfo''"
definition devKvm :: string where "devKvm = ''/dev/kvm''"

text \<open>\<open>fmt.Sprintf(sysClassNetDevSpeed, dev)\<close> with the format \<open>/sys/class/net/%s/speed\<close>.\<close>

definition sysClassNetDevSpeed :: "string \<Rightarrow> string" where
  "sysClassNetDevSpeed dev = ''/sys/class/net/'' @ dev @ ''/speed''"

subsection \<open>CPUCheck\<close>

definition CPUCheck_Run :: "env \<Rightarrow> string \<times> error option" where
  "CPUCheck_Run e =
     (case execCommand e ''/usr/bin/nproc'' [''--all''] of
        (out, Some err) \<Rightarrow> ('''', Some err)
      | (out, None) \<Rightarrow>
          let nproc = fst (Atoi (TrimSpace out)) in
          if nproc < MinCPUTest then
            (''Only '' @ fmt_d nproc @ '' CPU cores detected. SaftOS requires at least ''
               @ fmt_d MinCPUTest @ '' cores for testing and '' @ fmt_d MinCPUProd
               @ '' for production use.'', None)
          else if nproc < MinCPUProd then
            (fmt_d nproc @ '' CPU cores detected. SaftOS requires at least ''
               @ fmt_d MinCPUProd @ '' cores for production use.'', None)
          else ('''', None))"

subsection \<open>fmt.Sscanf\<close>

text \<open>
  The two formats the package scans with consist of literal ASCII characters, single
  blanks and the verbs \<open>%d\<close> and \<open>%s\<close>. A run of blanks in the format is one
  directive; a verb is kept with its letter.
\<close>

datatype fmt_item = Lit char | Blank | Verb char

fun parse_format :: "string \<Rightarrow> fmt_item list" where
  "parse_format [] = []"
| "parse_format (c # cs) =
     (if c = CHR ''%'' then
        (case cs of [] \<Rightarrow> [] | v # rest \<Rightarrow> Verb v # parse_format rest)
      else if c = CHR '' '' then
        (case parse_format cs of Blank # items \<Rightarrow> Blank # items | items \<Rightarrow> Blank # items)
      else Lit c # parse_format cs)"

datatype scan_val = UintVal "64 word" | StringVal string

definition newline :: char where
  "newline = CHR 0x0A"

text \<open>
  The loop of \<open>advance\<close> over the input for a blank of the format: white space other
  than a newline is consumed.
\<close>

function skip_blanks :: "string \<Rightarrow> string" where
  "skip_blanks s =
     (case s of
        [] \<Rightarrow> []
      | c # cs \<Rightarrow>
          if space_width s = 0 \<or> c = newline then s
          else skip_blanks (drop (space_width s) s))"
  by pat_completeness auto
termination
  by (relation "measure length") auto

text \<open>
  A blank of the format matches the end of the input, or one white-space rune that is
  not a newline followed by any further such runes; anything else is the error
  ``expected space in input to match format'' (\<open>None\<close>).
\<close>

definition scan_blank :: "string \<Rightarrow> string option" where
  "scan_blank s =
     (case s of
        [] \<Rightarrow> Some []
      | c # cs \<Rightarrow> if space_width s = 0 \<or> c = newline then None else Some (skip_blanks s))"

text \<open>
  \<open>ss.SkipSpace\<close> of a scan that does not treat newlines as space (\<open>Sscanf\<close>):
  white space is consumed, a newline is the error ``unexpected newline''.
\<close>

function SkipSpace :: "string \<Rightarrow> string option" where
  "SkipSpace s =
     (case s of
        [] \<Rightarrow> Some []
      | c # cs \<Rightarrow>
          if c = newline then None
          else if space_width s = 0 then Some s
          else SkipSpace (drop (space_width s) s))"
  by pat_completeness auto
termination
  by (relation "measure length") auto

text \<open>
  \<open>scanUint\<close> for the verb \<open>%d\<close> and a 64-bit destination: the longest run of
  decimal digits, which must not be empty and whose value must fit 64 bits
  (\<open>strconv.ParseUint\<close> fails otherwise).
\<close>

definition scan_uint :: "string \<Rightarrow> (64 word \<times> string) option" where
  "scan_uint s =
     (let tok = takeWhile is_digit s; rest = dropWhile is_digit s in
      if tok = [] then None
      else (case parse_digits 0 tok of
              None \<Rightarrow> None
            | Some v \<Rightarrow> if v < 2 ^ 64 then Some (word_of_int v, rest) else None))"

text \<open>
  \<open>ss.token\<close> with \<open>notSpace\<close>: runes up to the next white space or the end. The
  counter is the number of bytes of the current well-formed rune still to copy; a
  byte that starts no well-formed rune is read as U+FFFD and written as its encoding.
\<close>

fun read_token :: "nat \<Rightarrow> string \<Rightarrow> string \<times> string" where
  "read_token k [] = ([], [])"
| "read_token (Suc k) (c # cs) =
     (let (tok, rest) = read_token k cs in (c # tok, rest))"
| "read_token 0 (c # cs) =
     (if space_width (c # cs) \<noteq> 0 then ([], c # cs)
      else (case rune_len (map byte (c # cs)) of
              Some w \<Rightarrow> (let (tok, rest) = read_token (w - 1) cs in (c # tok, rest))
            | None \<Rightarrow>
                (let (tok, rest) = read_token 0 cs
                 in (CHR 0xEF # CHR 0xBF # CHR 0xBD # tok, rest))))"

text \<open>\<open>convertString\<close> for the verb \<open>%s\<close>: fails at the end of the input.\<close>

definition scan_string :: "string \<Rightarrow> (string \<times> string) option" where
  "scan_string s = (if s = [] then None else Some (read_token 0 s))"

text \<open>
  \<open>doScanf\<close>: the directives are matched in order; the first failure ends the scan
  and the operands stored so far stay stored. The result lists the stored operands in
  order, and its length is the count \<open>Sscanf\<close> returns; the error \<open>Sscanf\<close> returns
  with it is dropped by both callers. The scanner's bound of \<open>2 ^ 30\<close> runes on what
  one call reads is not represented.
\<close>

fun doScanf :: "fmt_item list \<Rightarrow> string \<Rightarrow> scan_val list" where
  "doScanf [] s = []"
| "doScanf (Lit c # items) s =
     (case s of [] \<Rightarrow> [] | d # ds \<Rightarrow> if d = c then doScanf items ds else [])"
| "doScanf (Blank # items) s =
     (case scan_blank s of None \<Rightarrow> [] | Some s' \<Rightarrow> doScanf items s')"
| "doScanf (Verb v # items) s =
     (case SkipSpace s of
        None \<Rightarrow> []
      | Some s1 \<Rightarrow>
          if v = CHR ''d'' then
            (case scan_uint s1 of
               None \<Rightarrow> []
             | Some (n, s2) \<Rightarrow> UintVal n # doScanf items s2)
          else if v = CHR ''s'' then
            (case scan_string s1 of
               None \<Rightarrow> []
             | Some (tok, s2) \<Rightarrow> StringVal tok # doScanf items s2)
          else [])"

definition Sscanf :: "string \<Rightarrow> string \<Rightarrow> scan_val list" where
  "Sscanf str format = doScanf (parse_format format) str"

subsection \<open>strings.Split on a newline, and bufio.Scanner\<close>

fun Split_nl :: "string \<Rightarrow> string list" where
  "Split_nl [] = [[]]"
| "Split_nl (c # cs) =
     (if c = newline then [] # Split_nl cs
      else (case Split_nl cs of [] \<Rightarrow> [[c]] | l # ls \<Rightarrow> (c # l) # ls))"

declare Split_nl.simps [simp del]

definition dropCR :: "string \<Rightarrow> string" where
  "dropCR l = (if l \<noteq> [] \<and> last l = CHR 0x0D then butlast l else l)"

definition MaxScanTokenSize :: int where
  "MaxScanTokenSize = 64 * 1024"

text \<open>
  The texts a \<open>bufio.Scanner\<close> with the default split function (\<open>ScanLines\<close>) and the
  default buffer yields for the bytes of a file: the lines without their newline and
  without one trailing carriage return, no empty last line, and nothing from the
  first line on that does not fit the buffer (\<open>Scan\<close> returns false with
  \<open>ErrTooLong\<close>).
\<close>

definition raw_lines :: "string \<Rightarrow> string list" where
  "raw_lines s = (let ls = Split_nl s in if last ls = [] then butlast ls else ls)"

definition scanner_texts :: "string \<Rightarrow> string list" where
  "scanner_texts s =
     map dropCR (takeWhile (\<lambda>l. int (length l) < MaxScanTokenSize) (raw_lines s))"

subsection \<open>float32\<close>

text \<open>
  A finite \<open>float32\<close> is the rational number it denotes. An operation computes the
  exact result and rounds it to the nearest number with a 24-bit significand, ties
  to the even significand. The values that occur in the checks (conversions of 64-bit
  integers, the constant 0.9, products with 32 and 64, quotients by 1000) stay in the
  normal range, so neither overflow nor gradual underflow is represented.
\<close>

type_synonym float32 = rat

function bit_length :: "int \<Rightarrow> int" where
  "bit_length n = (if n \<le> 0 then 0 else bit_length (n div 2) + 1)"
  by pat_completeness auto
termination
  by (relation "measure nat") auto

declare bit_length.simps [simp del]

definition pow2 :: "int \<Rightarrow> rat" where
  "pow2 k = (if 0 \<le> k then 2 ^ nat k else 1 / 2 ^ nat (- k))"

text \<open>The binary exponent \<open>e\<close> of a positive rational: \<open>2 ^ e \<le> q < 2 ^ (e + 1)\<close>.\<close>

definition ilog2 :: "rat \<Rightarrow> int" where
  "ilog2 q =
     (let (a, b) = quotient_of q;
          k = bit_length a - bit_length b
      in if pow2 k \<le> q then k else k - 1)"

definition round_half_even :: "rat \<Rightarrow> int" where
  "round_half_even q =
     (let f = \<lfloor>q\<rfloor>; r = q - of_int f
      in if r < 1 / 2 then f
         else if 1 / 2 < r then f + 1
         else if even f then f else f + 1)"

definition f32_round :: "rat \<Rightarrow> float32" where
  "f32_round q =
     (if q = 0 then 0
      else let a = \<bar>q\<bar>; ulp = pow2 (ilog2 a - 23)
           in sgn q * (of_int (round_half_even (a / ulp)) * ulp))"

definition float32_of_uint :: "64 word \<Rightarrow> float32" where
  "float32_of_uint w = f32_round (of_int (uint w))"

definition float32_of_int :: "int \<Rightarrow> float32" where
  "float32_of_int i = f32_round (of_int i)"

definition f32_mul :: "float32 \<Rightarrow> float32 \<Rightarrow> float32" where
  "f32_mul a b = f32_round (a * b)"

definition f32_div :: "float32 \<Rightarrow> float32 \<Rightarrow> float32" where
  "f32_div a b = f32_round (a / b)"

subsection \<open>The verb %g for a float32\<close>

text \<open>
  \<open>%g\<close> without a precision prints the shortest decimal that reads back as the same
  \<open>float32\<close>. The decimals that read back are those between the midpoints to the
  two neighbouring floats, the midpoints included when the significand is even.
\<close>

definition pow10 :: "int \<Rightarrow> rat" where
  "pow10 k = (if 0 \<le> k then 10 ^ nat k else 1 / 10 ^ nat (- k))"

function dec_length :: "int \<Rightarrow> int" where
  "dec_length n = (if n < 10 then 1 else dec_length (n div 10) + 1)"
  by pat_completeness auto
termination
  by (relation "measure nat") auto

declare dec_length.simps [simp del]

text \<open>The decimal point \<open>dp\<close> of a positive rational: \<open>10 ^ (dp - 1) \<le> x < 10 ^ dp\<close>.\<close>

definition dec_point :: "rat \<Rightarrow> int" where
  "dec_point x =
     (let (a, b) = quotient_of x;
          k = dec_length a - dec_length b
      in if x < pow10 k then k else k + 1)"

definition f32_mant :: "float32 \<Rightarrow> int" where
  "f32_mant x = \<lfloor>x / pow2 (ilog2 x - 23)\<rfloor>"

definition f32_lower :: "float32 \<Rightarrow> rat" where
  "f32_lower x =
     (let e = ilog2 x; ulp = pow2 (e - 23)
      in if 2 ^ 23 < f32_mant x \<or> e = - 126 then x - ulp / 2 else x - ulp / 4)"

definition f32_upper :: "float32 \<Rightarrow> rat" where
  "f32_upper x = x + pow2 (ilog2 x - 23) / 2"

definition inclusive :: "float32 \<Rightarrow> bool" where
  "inclusive x = even (f32_mant x)"

text \<open>The decimals of \<open>n\<close> digits just below and just above \<open>x\<close>.\<close>

definition digit_unit :: "rat \<Rightarrow> nat \<Rightarrow> rat" where
  "digit_unit x n = pow10 (dec_point x - int n)"

definition round_down :: "rat \<Rightarrow> nat \<Rightarrow> rat" where
  "round_down x n = of_int \<lfloor>x / digit_unit x n\<rfloor> * digit_unit x n"

definition round_up :: "rat \<Rightarrow> nat \<Rightarrow> rat" where
  "round_up x n = round_down x n + digit_unit x n"

definition okdown :: "float32 \<Rightarrow> nat \<Rightarrow> bool" where
  "okdown x n =
     (f32_lower x < round_down x n \<or> inclusive x \<and> f32_lower x = round_down x n)"

definition okup :: "float32 \<Rightarrow> nat \<Rightarrow> bool" where
  "okup x n =
     (round_up x n < f32_upper x \<or> inclusive x \<and> round_up x n = f32_upper x)"

definition round_nearest :: "rat \<Rightarrow> nat \<Rightarrow> rat" where
  "round_nearest x n = of_int (round_half_even (x / digit_unit x n)) * digit_unit x n"

text \<open>
  The shortest decimal: at the first number of digits for which rounding down or
  rounding up stays in the interval, the one that does, and the nearest when both do.
  Nine digits always tell a \<open>float32\<close> from its neighbours.
\<close>

definition shortest :: "float32 \<Rightarrow> rat \<times> nat" where
  "shortest x =
     (case find (\<lambda>n. okdown x n \<or> okup x n) [1..<10] of
        None \<Rightarrow> (round_nearest x 9, 9)
      | Some n \<Rightarrow>
          (if okdown x n \<and> okup x n then round_nearest x n
           else if okdown x n then round_down x n
           else round_up x n, n))"

text \<open>Its digits without trailing zeros, and its decimal point.\<close>

definition shortest_digits :: "float32 \<Rightarrow> string \<times> int" where
  "shortest_digits x =
     (let (v, n) = shortest x;
          ds = digits10 \<lfloor>v / digit_unit x n\<rfloor>
      in (rev (dropWhile (\<lambda>c. c = CHR ''0'') (rev ds)),
          dec_point x - int n + int (length ds)))"

definition fmtE :: "string \<Rightarrow> int \<Rightarrow> string" where
  "fmtE ds dp =
     (let ex = dp - 1; a = \<bar>ex\<bar> in
      take 1 ds @ (if 1 < length ds then CHR ''.'' # drop 1 ds else [])
        @ [CHR ''e'', if ex < 0 then CHR ''-'' else CHR ''+'']
        @ (if a < 10 then CHR ''0'' # digits10 a else digits10 a))"

definition fmtF :: "string \<Rightarrow> int \<Rightarrow> string" where
  "fmtF ds dp =
     (let nd = int (length ds) in
      (if 0 < dp then take (nat dp) ds @ replicate (nat (dp - nd)) CHR ''0'' else ''0'')
        @ (if dp < nd then
             CHR ''.'' # replicate (nat (- dp)) CHR ''0'' @ drop (nat dp) ds
           else []))"

definition fmt_g :: "float32 \<Rightarrow> string" where
  "fmt_g x =
     (if x = 0 then ''0''
      else let (ds, dp) = shortest_digits \<bar>x\<bar>;
               body = (if dp - 1 < - 4 \<or> 6 \<le> dp - 1 then fmtE ds dp else fmtF ds dp)
           in if x < 0 then CHR ''-'' # body else body)"

subsection \<open>MemoryCheck\<close>

definition rangeSizeToKiB :: "64 word \<Rightarrow> string \<Rightarrow> 64 word" where
  "rangeSizeToKiB rangeSize unit =
     (if unit = ''GB'' then push_bit 20 rangeSize
      else if unit = ''MB'' then push_bit 10 rangeSize
      else if unit = ''kB'' then rangeSize
      else if unit = ''bytes'' then drop_bit 10 rangeSize
      else 0)"

definition huge_unit :: "string \<Rightarrow> bool" where
  "huge_unit unit = (unit = ''TB'' \<or> unit = ''PB'' \<or> unit = ''EB'' \<or> unit = ''ZB'')"

text \<open>
  The loop over the lines of the output of \<open>dmidecode -t 19\<close>, from the running total.
  It returns the total and the lines logged with \<open>logrus.Infof\<close>.
\<close>

fun dmi_scan :: "64 word \<Rightarrow> string list \<Rightarrow> 64 word \<times> string list" where
  "dmi_scan memTotalKiB [] = (memTotalKiB, [])"
| "dmi_scan memTotalKiB (line # lines) =
     (case Sscanf (TrimSpace line) ''Range Size: %d %s'' of
        [UintVal rangeSize, StringVal unit] \<Rightarrow>
          if huge_unit unit then
            (push_bit 30 1,
             [''Found Memory Array Mapped Address with Range Size '' @ fmt_du rangeSize
                @ '' '' @ unit @ '', assuming 1 TiB RAM for preflight check''])
          else dmi_scan (memTotalKiB + rangeSizeToKiB rangeSize unit) lines
      | _ \<Rightarrow> dmi_scan memTotalKiB lines)"

declare dmi_scan.simps [simp del]

text \<open>
  The loop over the texts of the scanner on \<open>/proc/meminfo\<close>: the first text from
  which \<open>Sscanf\<close> stores one operand sets the total and ends the loop.
\<close>

fun meminfo_scan :: "64 word \<Rightarrow> string list \<Rightarrow> 64 word" where
  "meminfo_scan memTotalKiB [] = memTotalKiB"
| "meminfo_scan memTotalKiB (text # texts) =
     (case Sscanf text ''MemTotal: %d kB'' of
        [UintVal n] \<Rightarrow> n
      | _ \<Rightarrow> meminfo_scan memTotalKiB texts)"

declare meminfo_scan.simps [simp del]

text \<open>The report on a total, from \<open>memTotalMiB := memTotalKiB / (1 << 10)\<close> on.\<close>

definition memory_report :: "64 word \<Rightarrow> float32 \<Rightarrow> string \<times> error option" where
  "memory_report memTotalKiB wiggleRoom =
     (let memTotalMiB = memTotalKiB div push_bit 10 1;
          memTotalGiB = memTotalKiB div push_bit 20 1;
          memReported = (if memTotalGiB < 1 then fmt_du memTotalMiB @ ''MiB''
                         else fmt_du memTotalGiB @ ''GiB'')
      in if float32_of_uint memTotalGiB < f32_mul (of_int MinMemoryTest) wiggleRoom then
           (''Only '' @ memReported @ '' RAM detected. SaftOS requires at least ''
              @ fmt_d MinMemoryTest @ ''GiB for testing and '' @ fmt_d MinMemoryProd
              @ ''GiB for production use.'', None)
         else if float32_of_uint memTotalGiB < f32_mul (of_int MinMemoryProd) wiggleRoom then
           (memReported @ '' RAM detected. SaftOS requires at least ''
              @ fmt_d MinMemoryProd @ ''GiB for production use.'', None)
         else ([], None))"

text \<open>The total of the primary source: 0 when the command fails.\<close>

definition dmi_total :: "env \<Rightarrow> 64 word" where
  "dmi_total e =
     (case execCommand e ''/usr/sbin/dmidecode'' [''-t'', ''19''] of
        (out, None) \<Rightarrow> fst (dmi_scan 0 (Split_nl out))
      | (out, Some err) \<Rightarrow> 0)"

definition MemoryCheck_Run :: "env \<Rightarrow> string \<times> error option" where
  "MemoryCheck_Run e =
     (let memTotalKiB = dmi_total e in
      if memTotalKiB = 0 then
        (case os_Open e procMemInfo of
           Inl err \<Rightarrow> ([], Some err)
         | Inr meminfo \<Rightarrow>
             let memTotalKiB = meminfo_scan memTotalKiB (scanner_texts meminfo) in
             if memTotalKiB = 0 then
               ([], Some (ErrorString ''unable to extract MemTotal from /proc/meminfo''))
             else memory_report memTotalKiB (f32_round (9 / 10)))
      else memory_report memTotalKiB 1)"

subsection \<open>VirtCheck\<close>

definition VirtCheck_Run :: "env \<Rightarrow> string \<times> error option" where
  "VirtCheck_Run e =
     (case execCommand e ''/usr/bin/systemd-detect-virt'' [''--vm''] of
        (out, err) \<Rightarrow>
          let virt = TrimSpace out in
          (case err of
             Some er \<Rightarrow> if virt = ''none'' then ([], None) else ([], Some er)
           | None \<Rightarrow>
               (''System is virtualized ('' @ virt
                  @ '') which is not supported in production.'', None)))"

subsection \<open>KVMHostCheck\<close>

definition KVMHostCheck_Run :: "env \<Rightarrow> string \<times> error option" where
  "KVMHostCheck_Run e =
     (case os_Stat e devKvm of
        None \<Rightarrow> ([], None)
      | Some err \<Rightarrow>
          if is_ErrNotExist err then
            (''SaftOS requires hardware-assisted virtualization, but /dev/kvm does not exist.'',
             None)
          else ([], Some err))"

subsection \<open>NetworkSpeedCheck\<close>

definition NetworkSpeedCheck_Run :: "env \<Rightarrow> string \<Rightarrow> string \<times> error option" where
  "NetworkSpeedCheck_Run e Dev =
     (let speedPath = sysClassNetDevSpeed Dev in
      case os_ReadFile e speedPath of
        Inl err \<Rightarrow> ([], Some err)
      | Inr out \<Rightarrow>
          let speedMbps = fst (Atoi (TrimSpace out)) in
          if speedMbps < 1 then
            ([], Some (ErrorString (''unable to determine NIC speed from '' @ speedPath
                                     @ '' (got '' @ fmt_d speedMbps @ '')'')))
          else
            let speedGbps = f32_div (float32_of_int speedMbps) 1000 in
            if speedGbps < of_int MinNetworkGbpsTest then
              (''Link speed of '' @ Dev @ '' is only '' @ fmt_d speedMbps
                 @ ''Mpbs. SaftOS requires at least '' @ fmt_d MinNetworkGbpsTest
                 @ ''Gbps for testing and '' @ fmt_d MinNetworkGbpsProd
                 @ ''Gbps for production use.'', None)
            else if speedGbps < of_int MinNetworkGbpsProd then
              (''Link speed of '' @ Dev @ '' is '' @ fmt_g speedGbps
                 @ ''Gbps. SaftOS requires at least '' @ fmt_d MinNetworkGbpsProd
                 @ ''Gbps for production use.'', None)
            else ([], None))"

subsection \<open>The interface Check\<close>

datatype check =
    CPUCheck
  | MemoryCheck
  | VirtCheck
  | KVMHostCheck
  | NetworkSpeedCheck string

fun Run :: "env \<Rightarrow> check \<Rightarrow> string \<times> error option" where
  "Run e CPUCheck = CPUCheck_Run e"
| "Run e MemoryCheck = MemoryCheck_Run e"
| "Run e VirtCheck = VirtCheck_Run e"
| "Run e KVMHostCheck = KVMHostCheck_Run e"
| "Run e (NetworkSpeedCheck Dev) = NetworkSpeedCheck_Run e Dev"

subsection \<open>Hosts to run the checks on\<close>

text \<open>
  A host on which every command prints \<open>out\<close> and ends with \<open>err\<close>, every file
  opens or reads as \<open>file\<close>, and every \<open>Stat\<close> ends with \<open>st\<close>.
\<close>

definition host :: "string \<times> error option \<Rightarrow> error + string \<Rightarrow> error option \<Rightarrow> env" where
  "host cmd file st =
     \<lparr>execCommand = (\<lambda>name args. cmd), os_Open = (\<lambda>path. file),
      os_ReadFile = (\<lambda>path. file), os_Stat = (\<lambda>path. st)\<rparr>"

definition exit_status_1 :: error where
  "exit_status_1 = ExternalError ''exit status 1'' False"

definition no_such_file :: error where
  "no_such_file = ExternalError ''no such file or directory'' True"

definition permission_denied :: error where
  "permission_denied = ExternalError ''permission denied'' False"

text \<open>The output of \<open>dmidecode -t 19\<close> on a system with 512 GiB of RAM.\<close>

definition dmidecode_512GiB :: string where
  "dmidecode_512GiB =
     ''# dmidecode 3.5\<newline>'' @
     ''Getting SMBIOS data from sysfs.\<newline>'' @
     ''SMBIOS 2.8 present.\<newline>'' @
     ''\<newline>'' @
     ''Handle 0x0024, DMI type 19, 31 bytes\<newline>'' @
     ''Memory Array Mapped Address\<newline>'' @
     (CHR 0x09 # ''Starting Address: 0x00000000000\<newline>'') @
     (CHR 0x09 # ''Ending Address: 0x0007FFFFFFF\<newline>'') @
     (CHR 0x09 # ''Range Size: 2 GB\<newline>'') @
     (CHR 0x09 # ''Physical Array Handle: 0x000A\<newline>'') @
     (CHR 0x09 # ''Partition Width: 1\<newline>'') @
     ''\<newline>'' @
     ''Handle 0x0025, DMI type 19, 31 bytes\<newline>'' @
     ''Memory Array Mapped Address\<newline>'' @
     (CHR 0x09 # ''Starting Address: 0x0000000100000000k\<newline>'') @
     (CHR 0x09 # ''Ending Address: 0x000000807FFFFFFFk\<newline>'') @
     (CHR 0x09 # ''Range Size: 510 GB\<newline>'') @
     (CHR 0x09 # ''Physical Array Handle: 0x000B\<newline>'') @
     (CHR 0x09 # ''Partition Width: 1\<newline>'')"

subsection \<open>What the specification calls an integer\<close>


subsection \<open>The records of the primary source\<close>

text \<open>
  The record a line of the output contributes: the two operands of a scan that
  stored both.
\<close>

definition range_record :: "string \<Rightarrow> (64 word \<times> string) option" where
  "range_record line =
     (case Sscanf (TrimSpace line) ''Range Size: %d %s'' of
        [UintVal rangeSize, StringVal unit] \<Rightarrow> Some (rangeSize, unit)
      | _ \<Rightarrow> None)"

definition range_records :: "string list \<Rightarrow> (64 word \<times> string) list" where
  "range_records lines = List.map_filter range_record lines"

text \<open>The verbs of a format, and the verb that stores a value.\<close>

fun verbs :: "fmt_item list \<Rightarrow> string" where
  "verbs [] = []"
| "verbs (Verb v # items) = v # verbs items"
| "verbs (Lit c # items) = verbs items"
| "verbs (Blank # items) = verbs items"

fun val_verb :: "scan_val \<Rightarrow> char" where
  "val_verb (UintVal n) = CHR ''d''"
| "val_verb (StringVal s) = CHR ''s''"

subsection \<open>Memory-info files\<close>

text \<open>A host on which the SMBIOS dump fails and \<open>/proc/meminfo\<close> has the given bytes.\<close>

definition fallback_host :: "string \<Rightarrow> env" where
  "fallback_host meminfo = host ([], Some exit_status_1) (Inr meminfo) None"

section \<open>Properties\<close>

subsection \<open>Evaluation of the helpers\<close>

lemma execCommand_host [simp]: "execCommand (host cmd file st) name args = cmd"
  by (simp add: host_def)

lemma os_Open_host [simp]: "os_Open (host cmd file st) path = file"
  by (simp add: host_def)

lemma os_ReadFile_host [simp]: "os_ReadFile (host cmd file st) path = file"
  by (simp add: host_def)

lemma os_Stat_host [simp]: "os_Stat (host cmd file st) path = st"
  by (simp add: host_def)

lemma fmt_d_thresholds:
  "fmt_d MinCPUTest = ''8''" "fmt_d MinCPUProd = ''16''"
  "fmt_d MinMemoryTest = ''32''" "fmt_d MinMemoryProd = ''64''"
  "fmt_d MinNetworkGbpsTest = ''1''" "fmt_d MinNetworkGbpsProd = ''10''"
  by code_simp+

subsection \<open>What Atoi returns when it fails\<close>













subsection \<open>Rounding to float32 is monotone\<close>

lemma pow2_powi: "pow2 k = 2 powi k"
proof (cases "0 \<le> k")
  case True
  then show ?thesis by (simp add: pow2_def power_int_nonneg_exp)
next
  case False
  then have "(2::rat) powi k = 1 / 2 powi (- k)"
    using power_int_minus_divide [of "2::rat" "- k"] by simp
  also have "\<dots> = 1 / 2 ^ nat (- k)"
    using False by (simp add: power_int_nonneg_exp)
  finally show ?thesis using False by (simp add: pow2_def)
qed

lemma pow2_pos [simp]: "0 < pow2 k"
  by (simp add: pow2_def)

lemma pow2_nonneg [simp]: "0 \<le> pow2 k"
  using pow2_pos [of k] by (rule less_imp_le)

lemma pow2_numeral: "pow2 (numeral n) = 2 ^ numeral n"
  by (simp add: pow2_def)

lemma pow2_less_iff [simp]: "pow2 a < pow2 b \<longleftrightarrow> a < b"
proof
  assume "pow2 a < pow2 b"
  show "a < b"
  proof (rule ccontr)
    assume "\<not> a < b"
    then have "b \<le> a" by simp
    then have "(2::rat) powi b \<le> 2 powi a" by (intro power_int_increasing) simp_all
    with \<open>pow2 a < pow2 b\<close> show False by (simp add: pow2_powi)
  qed
next
  assume "a < b"
  then show "pow2 a < pow2 b"
    unfolding pow2_powi by (intro power_int_strict_increasing) simp_all
qed

lemma pow2_le_iff [simp]: "pow2 a \<le> pow2 b \<longleftrightarrow> a \<le> b"
  using pow2_less_iff [of b a] by (auto simp: not_less [symmetric] simp del: pow2_less_iff)

lemma pow2_add: "pow2 (a + b) = pow2 a * pow2 b"
  by (simp add: pow2_powi power_int_add)

lemma pow2_diff: "pow2 (a - b) = pow2 a / pow2 b"
  by (simp add: pow2_powi power_int_diff)

lemma pow2_nat: "0 \<le> k \<Longrightarrow> pow2 k = 2 ^ nat k"
  by (simp add: pow2_def)

lemma bit_length_bounds:
  "0 < n \<Longrightarrow> 0 < bit_length n \<and> 2 ^ nat (bit_length n - 1) \<le> n \<and> n < 2 ^ nat (bit_length n)"
proof (induction n rule: bit_length.induct)
  case (1 n)
  show ?case
  proof (cases "n div 2 = 0")
    case True
    with \<open>0 < n\<close> have "n = 1" by presburger
    then show ?thesis by (simp add: bit_length.simps)
  next
    case False
    with \<open>0 < n\<close> have pos: "0 < n div 2" by presburger
    from "1.IH" \<open>0 < n\<close> pos
    have ih: "0 < bit_length (n div 2)"
      "2 ^ nat (bit_length (n div 2) - 1) \<le> n div 2"
      "n div 2 < 2 ^ nat (bit_length (n div 2))"
      by simp_all
    have bl: "bit_length n = bit_length (n div 2) + 1"
      using \<open>0 < n\<close> by (subst bit_length.simps) simp
    define b where "b = nat (bit_length (n div 2) - 1)"
    have nb: "nat (bit_length (n div 2)) = Suc b"
      using ih(1) by (simp add: b_def)
    have "2 * 2 ^ b \<le> 2 * (n div 2)" using ih(2) by (simp add: b_def)
    then have lo: "(2::int) ^ Suc b \<le> n" by simp
    have "n div 2 + 1 \<le> 2 ^ Suc b" using ih(3) nb by simp
    then have hi: "n < 2 ^ Suc (Suc b)" by simp
    have n1: "nat (bit_length (n div 2) + 1) = Suc (Suc b)"
      and n0: "nat (bit_length (n div 2) + 1 - 1) = Suc b"
      using ih(1) by (simp_all add: b_def)
    show ?thesis
      unfolding bl n1 n0 using ih(1) lo hi by simp
  qed
qed


lemma bit_length_rat:
  assumes "0 < n"
  shows "pow2 (bit_length n - 1) \<le> of_int n" and "of_int n < pow2 (bit_length n)"
proof -
  from bit_length_bounds [OF assms]
  have b: "0 < bit_length n" "2 ^ nat (bit_length n - 1) \<le> n" "n < 2 ^ nat (bit_length n)"
    by simp_all
  have "(of_int (2 ^ nat (bit_length n - 1)) :: rat) \<le> of_int n"
    using b(2) by (simp only: of_int_le_iff)
  then show "pow2 (bit_length n - 1) \<le> of_int n"
    using b(1) by (simp add: pow2_nat)
  have "(of_int n :: rat) < of_int (2 ^ nat (bit_length n))"
    using b(3) by (simp only: of_int_less_iff)
  then show "of_int n < pow2 (bit_length n)"
    using b(1) by (simp add: pow2_nat)
qed

lemma ilog2_bounds:
  assumes "0 < q"
  shows "pow2 (ilog2 q) \<le> q" and "q < pow2 (ilog2 q + 1)"
proof -
  obtain a b where ab: "quotient_of q = (a, b)" by (cases "quotient_of q")
  have bpos: "0 < b" using quotient_of_denom_pos [OF ab] .
  have q: "q = of_int a / of_int b" using quotient_of_div [OF ab] .
  have apos: "0 < a"
    using assms bpos unfolding q by (simp add: zero_less_divide_iff)
  define k where "k = bit_length a - bit_length b"
  have "q < pow2 (bit_length a) / pow2 (bit_length b - 1)"
    unfolding q using bit_length_rat [OF apos] bit_length_rat [OF bpos] apos bpos
    by (intro frac_less) simp_all
  then have up: "q < pow2 (k + 1)"
    using pow2_diff [of "bit_length a" "bit_length b - 1"] by (simp add: k_def algebra_simps)
  have "pow2 (bit_length a - 1) / pow2 (bit_length b) \<le> q"
    unfolding q using bit_length_rat [OF apos] bit_length_rat [OF bpos] apos bpos
    by (intro frac_le) simp_all
  then have lo: "pow2 (k - 1) \<le> q"
    using pow2_diff [of "bit_length a - 1" "bit_length b"] by (simp add: k_def algebra_simps)
  have il: "ilog2 q = (if pow2 k \<le> q then k else k - 1)"
    by (simp add: ilog2_def ab k_def Let_def)
  show "pow2 (ilog2 q) \<le> q"
    using lo by (simp add: il)
  show "q < pow2 (ilog2 q + 1)"
    using up by (simp add: il not_le)
qed

lemma ilog2_mono:
  assumes "0 < x" "x \<le> y"
  shows "ilog2 x \<le> ilog2 y"
proof -
  have "pow2 (ilog2 x) \<le> x" using ilog2_bounds(1) [OF assms(1)] .
  also have "x \<le> y" by fact
  also have "y < pow2 (ilog2 y + 1)" using ilog2_bounds(2) [of y] assms by simp
  finally show ?thesis by simp
qed

lemma round_half_even_floor:
  "\<lfloor>q\<rfloor> \<le> round_half_even q" "round_half_even q \<le> \<lfloor>q\<rfloor> + 1"
  by (simp_all add: round_half_even_def Let_def)

lemma round_half_even_of_int [simp]: "round_half_even (of_int n) = n"
  by (simp add: round_half_even_def Let_def)

lemma round_half_even_ge:
  assumes "of_int n \<le> q"
  shows "n \<le> round_half_even q"
proof -
  from assms have "n \<le> \<lfloor>q\<rfloor>" by (simp add: le_floor_iff)
  with round_half_even_floor(1) [of q] show ?thesis by simp
qed

lemma pow2_split:
  "pow2 (ilog2 q) = 2 ^ 23 * pow2 (ilog2 q - 23)"
  "pow2 (ilog2 q + 1) = 2 ^ 24 * pow2 (ilog2 q - 23)"
proof -
  have "pow2 (23 + (ilog2 q - 23)) = pow2 23 * pow2 (ilog2 q - 23)"
    by (rule pow2_add)
  then show "pow2 (ilog2 q) = 2 ^ 23 * pow2 (ilog2 q - 23)"
    by (simp add: pow2_numeral)
  have "pow2 (24 + (ilog2 q - 23)) = pow2 24 * pow2 (ilog2 q - 23)"
    by (rule pow2_add)
  then show "pow2 (ilog2 q + 1) = 2 ^ 24 * pow2 (ilog2 q - 23)"
    by (simp add: pow2_numeral add.commute)
qed

lemma round_half_even_le:
  assumes "q \<le> of_int n"
  shows "round_half_even q \<le> n"
proof (cases "q = of_int n")
  case True
  then show ?thesis by simp
next
  case False
  with assms have "q < of_int n" by simp
  then have "\<lfloor>q\<rfloor> < n" by (simp add: floor_less_iff)
  then show ?thesis using round_half_even_floor(2) [of q] by simp
qed

lemma round_half_even_mono:
  assumes "a \<le> b"
  shows "round_half_even a \<le> round_half_even b"
proof (cases "\<lfloor>a\<rfloor> = \<lfloor>b\<rfloor>")
  case True
  with assms show ?thesis
    by (auto simp: round_half_even_def Let_def)
next
  case False
  with assms have "\<lfloor>a\<rfloor> < \<lfloor>b\<rfloor>"
    using floor_mono [of a b] by simp
  then show ?thesis
    using round_half_even_floor(2) [of a] round_half_even_floor(1) [of b] by simp
qed

lemma f32_round_pos:
  "0 < q \<Longrightarrow>
     f32_round q = of_int (round_half_even (q / pow2 (ilog2 q - 23))) * pow2 (ilog2 q - 23)"
  by (simp add: f32_round_def Let_def)

lemma scaled_bounds:
  assumes "0 < q"
  shows "2 ^ 23 \<le> q / pow2 (ilog2 q - 23)" and "q / pow2 (ilog2 q - 23) < 2 ^ 24"
proof -
  note e = pow2_split(1) [of q] and e1 = pow2_split(2) [of q]
  show "2 ^ 23 \<le> q / pow2 (ilog2 q - 23)"
    using ilog2_bounds(1) [OF assms] unfolding e by (simp add: pos_le_divide_eq)
  show "q / pow2 (ilog2 q - 23) < 2 ^ 24"
    using ilog2_bounds(2) [OF assms] unfolding e1 by (simp add: pos_divide_less_eq)
qed

lemma f32_round_lower:
  assumes "0 < q"
  shows "pow2 (ilog2 q) \<le> f32_round q"
proof -
  have "(of_int (2 ^ 23) :: rat) \<le> q / pow2 (ilog2 q - 23)"
    using scaled_bounds(1) [OF assms] by simp
  then have "2 ^ 23 \<le> round_half_even (q / pow2 (ilog2 q - 23))"
    by (rule round_half_even_ge)
  then have "(2 ^ 23 :: rat) \<le> of_int (round_half_even (q / pow2 (ilog2 q - 23)))"
    by (metis of_int_le_iff of_int_numeral of_int_power)
  then have "2 ^ 23 * pow2 (ilog2 q - 23)
      \<le> of_int (round_half_even (q / pow2 (ilog2 q - 23))) * pow2 (ilog2 q - 23)"
    by (intro mult_right_mono) simp_all
  then show ?thesis
    by (simp only: f32_round_pos [OF assms] pow2_split(1) [of q])
qed

lemma f32_round_upper:
  assumes "0 < q"
  shows "f32_round q \<le> pow2 (ilog2 q + 1)"
proof -
  have "q / pow2 (ilog2 q - 23) \<le> (of_int (2 ^ 24) :: rat)"
    using scaled_bounds(2) [OF assms] by simp
  then have "round_half_even (q / pow2 (ilog2 q - 23)) \<le> 2 ^ 24"
    by (rule round_half_even_le)
  then have "of_int (round_half_even (q / pow2 (ilog2 q - 23))) \<le> (2 ^ 24 :: rat)"
    by (metis of_int_le_iff of_int_numeral of_int_power)
  then have "of_int (round_half_even (q / pow2 (ilog2 q - 23))) * pow2 (ilog2 q - 23)
      \<le> 2 ^ 24 * pow2 (ilog2 q - 23)"
    by (intro mult_right_mono) simp_all
  then show ?thesis
    by (simp only: f32_round_pos [OF assms] pow2_split(2) [of q])
qed

lemma f32_round_mono_pos:
  assumes "0 < x" "x \<le> y"
  shows "f32_round x \<le> f32_round y"
proof (cases "ilog2 x = ilog2 y")
  case True
  have ypos: "0 < y" using assms by simp
  have "x / pow2 (ilog2 y - 23) \<le> y / pow2 (ilog2 y - 23)"
    using assms(2) by (intro divide_right_mono) simp_all
  then have "round_half_even (x / pow2 (ilog2 y - 23))
      \<le> round_half_even (y / pow2 (ilog2 y - 23))"
    by (rule round_half_even_mono)
  then have "(of_int (round_half_even (x / pow2 (ilog2 y - 23))) :: rat) * pow2 (ilog2 y - 23)
      \<le> of_int (round_half_even (y / pow2 (ilog2 y - 23))) * pow2 (ilog2 y - 23)"
    by (intro mult_right_mono) simp_all
  then show ?thesis
    by (simp add: f32_round_pos [OF assms(1)] f32_round_pos [OF ypos] True)
next
  case False
  have ypos: "0 < y" using assms by simp
  from False ilog2_mono [OF assms] have "ilog2 x + 1 \<le> ilog2 y" by simp
  then have "pow2 (ilog2 x + 1) \<le> pow2 (ilog2 y)" by simp
  with f32_round_upper [OF assms(1)] f32_round_lower [OF ypos]
  show ?thesis by linarith
qed

lemma f32_round_mono:
  assumes "0 \<le> x" "x \<le> y"
  shows "f32_round x \<le> f32_round y"
proof (cases "x = 0")
  case True
  show ?thesis
  proof (cases "y = 0")
    case True
    with \<open>x = 0\<close> show ?thesis by simp
  next
    case False
    with assms True have "0 < y" by simp
    from f32_round_lower [OF this] have "0 < f32_round y"
      using pow2_pos [of "ilog2 y"] by (rule less_le_trans [rotated])
    with True show ?thesis by (simp add: f32_round_def)
  qed
next
  case False
  with assms have "0 < x" by simp
  then show ?thesis using assms(2) by (rule f32_round_mono_pos)
qed


lemma f32_round_small:
  "f32_round 28 = 28" "f32_round 29 = 29" "f32_round 57 = 57" "f32_round 58 = 58"
  "f32_round 31 = 31" "f32_round 32 = 32" "f32_round 63 = 63" "f32_round 64 = 64"
  "f32_round 999 = 999" "f32_round 1000 = 1000" "f32_round 9999 = 9999"
  "f32_round 10000 = 10000" "f32_round 1 = 1" "f32_round 10 = 10"
  "f32_round (999 / 1000) = 16760439 / 16777216"
  "f32_round (9999 / 1000) = 10484711 / 1048576"
  by code_simp+

lemma float32_of_uint_less:
  assumes "f32_round (of_int (k - 1)) = of_int (k - 1)" "f32_round (of_int k) = of_int k"
    and "of_int (k - 1) < t" "t \<le> of_int k" "1 \<le> k"
  shows "float32_of_uint g < t \<longleftrightarrow> uint g < k"
proof (cases "uint g < k")
  case True
  then have "uint g \<le> k - 1" by simp
  then have "(of_int (uint g) :: rat) \<le> of_int (k - 1)"
    by (simp only: of_int_le_iff)
  moreover have "(0 :: rat) \<le> of_int (uint g)"
    by (simp only: of_int_0_le_iff uint_ge_0)
  ultimately have "f32_round (of_int (uint g)) \<le> f32_round (of_int (k - 1))"
    by (intro f32_round_mono)
  with assms(1,3) have "f32_round (of_int (uint g)) < t" by linarith
  with True show ?thesis by (simp only: float32_of_uint_def)
next
  case False
  then have "(of_int k :: rat) \<le> of_int (uint g)"
    by (simp only: of_int_le_iff not_less)
  moreover have "(0 :: rat) \<le> of_int k"
    using assms(5) by simp
  ultimately have "f32_round (of_int k) \<le> f32_round (of_int (uint g))"
    by (intro f32_round_mono)
  with assms(2,4) have "\<not> f32_round (of_int (uint g)) < t" by linarith
  with False show ?thesis by (simp only: float32_of_uint_def)
qed

lemma float32_of_uint_less_wiggle:
  "float32_of_uint g < 7549747 / 262144 \<longleftrightarrow> g < 29"
  "float32_of_uint g < 7549747 / 131072 \<longleftrightarrow> g < 58"
  using float32_of_uint_less [of 29 "7549747 / 262144" g]
    float32_of_uint_less [of 58 "7549747 / 131072" g]
  by (simp_all add: f32_round_small word_less_def)

lemma float32_of_uint_less_full:
  "float32_of_uint g < 32 \<longleftrightarrow> g < 32" "float32_of_uint g < 64 \<longleftrightarrow> g < 64"
  using float32_of_uint_less [of 32 32 g] float32_of_uint_less [of 64 64 g]
  by (simp_all add: f32_round_small word_less_def)

lemma Gbps_less_1:
  assumes "1 \<le> m"
  shows "f32_div (float32_of_int m) 1000 < 1 \<longleftrightarrow> m < 1000"
proof (cases "m < 1000")
  case True
  then have "(of_int m :: rat) \<le> 999" by simp
  moreover have "(0 :: rat) \<le> of_int m" using assms by simp
  ultimately have "f32_round (of_int m) \<le> f32_round 999"
    by (intro f32_round_mono)
  then have le: "f32_round (of_int m) / 1000 \<le> 999 / 1000"
    by (simp add: f32_round_small)
  have "f32_round 0 \<le> f32_round (of_int m)"
    using assms by (intro f32_round_mono) simp_all
  then have "0 \<le> f32_round (of_int m) / 1000" by (simp add: f32_round_def)
  with le have "f32_round (f32_round (of_int m) / 1000) \<le> f32_round (999 / 1000)"
    by (intro f32_round_mono)
  with True show ?thesis
    by (simp add: f32_div_def float32_of_int_def f32_round_small)
next
  case False
  then have "(1000 :: rat) \<le> of_int m" by simp
  then have "f32_round 1000 \<le> f32_round (of_int m)"
    by (intro f32_round_mono) simp_all
  then have "1 \<le> f32_round (of_int m) / 1000"
    by (simp add: f32_round_small)
  then have "f32_round 1 \<le> f32_round (f32_round (of_int m) / 1000)"
    by (intro f32_round_mono) simp_all
  with False show ?thesis
    by (simp add: f32_div_def float32_of_int_def f32_round_small)
qed

lemma Gbps_less_10:
  assumes "1 \<le> m"
  shows "f32_div (float32_of_int m) 1000 < 10 \<longleftrightarrow> m < 10000"
proof (cases "m < 10000")
  case True
  then have "(of_int m :: rat) \<le> 9999" by simp
  moreover have "(0 :: rat) \<le> of_int m" using assms by simp
  ultimately have "f32_round (of_int m) \<le> f32_round 9999"
    by (intro f32_round_mono)
  then have le: "f32_round (of_int m) / 1000 \<le> 9999 / 1000"
    by (simp add: f32_round_small)
  have "f32_round 0 \<le> f32_round (of_int m)"
    using assms by (intro f32_round_mono) simp_all
  then have "0 \<le> f32_round (of_int m) / 1000" by (simp add: f32_round_def)
  with le have "f32_round (f32_round (of_int m) / 1000) \<le> f32_round (9999 / 1000)"
    by (intro f32_round_mono)
  with True show ?thesis
    by (simp add: f32_div_def float32_of_int_def f32_round_small)
next
  case False
  then have "(10000 :: rat) \<le> of_int m" by simp
  then have "f32_round 10000 \<le> f32_round (of_int m)"
    by (intro f32_round_mono) simp_all
  then have "10 \<le> f32_round (of_int m) / 1000"
    by (simp add: f32_round_small)
  then have "f32_round 10 \<le> f32_round (f32_round (of_int m) / 1000)"
    by (intro f32_round_mono) simp_all
  with False show ?thesis
    by (simp add: f32_div_def float32_of_int_def f32_round_small)
qed

lemma word_div_shift: "(w :: 64 word) div push_bit n 1 = drop_bit n w"
  by (simp add: drop_bit_eq_div)

lemma full_thresholds:
  "f32_mul (of_int MinMemoryTest) 1 = 32" "f32_mul (of_int MinMemoryProd) 1 = 64"
  by code_simp+

lemma memory_report_primary:
  "memory_report t 1 =
     (let gib = drop_bit 20 t;
          reported = (if gib < 1 then fmt_du (drop_bit 10 t) @ ''MiB'' else fmt_du gib @ ''GiB'')
      in if gib < 32 then
           (''Only '' @ reported @ '' RAM detected. SaftOS requires at least 32GiB for testing and 64GiB for production use.'',
            None)
         else if gib < 64 then
           (reported @ '' RAM detected. SaftOS requires at least 64GiB for production use.'', None)
         else ([], None))"
  unfolding memory_report_def full_thresholds word_div_shift fmt_d_thresholds
    float32_of_uint_less_full
  by (simp add: Let_def)

subsection \<open>CPUCheck\<close>








subsection \<open>VirtCheck\<close>

text \<open>
  C5. The detection command ends with a non-nil error when its exit status is not
  zero. \<open>VirtCheck.Run\<close> returns an empty message and a nil error exactly when the
  command ends that way with the trimmed output \<open>none\<close>; with any other trimmed
  output the command's error is returned with an empty message; when the command
  exits with status zero the error is nil and the message, which is not empty, names
  the trimmed output as the virtualization found.
\<close>

theorem VirtCheck_Run_cases:
  "execCommand e ''/usr/bin/systemd-detect-virt'' [''--vm''] = (out, err) \<longrightarrow>
     (VirtCheck_Run e = ([], None) \<longleftrightarrow> err \<noteq> None \<and> TrimSpace out = ''none'') \<and>
     (\<forall>er. err = Some er \<and> TrimSpace out \<noteq> ''none'' \<longrightarrow> VirtCheck_Run e = ([], Some er)) \<and>
     (err = None \<longrightarrow>
        VirtCheck_Run e =
          (''System is virtualized ('' @ TrimSpace out @ '') which is not supported in production.'',
           None) \<and>
        fst (VirtCheck_Run e) \<noteq> [])"
  by (cases err) (auto simp: VirtCheck_Run_def Let_def)

lemma trim_none: "TrimSpace ''none\<newline>'' = ''none''"
  by code_simp

lemma trim_kvm: "TrimSpace ''kvm\<newline>'' = ''kvm''"
  by code_simp

lemma trim_empty: "TrimSpace [] = []"
  by code_simp

theorem VirtCheck_Run_cases_witness:
  "VirtCheck_Run (host (''none\<newline>'', Some exit_status_1) (Inl no_such_file) None) = ([], None) \<and>
   VirtCheck_Run (host ([], Some exit_status_1) (Inl no_such_file) None) =
     ([], Some exit_status_1) \<and>
   VirtCheck_Run (host (''kvm\<newline>'', None) (Inl no_such_file) None) =
     (''System is virtualized (kvm) which is not supported in production.'', None)"
proof -
  have a: "VirtCheck_Run (host (''none\<newline>'', Some exit_status_1) (Inl no_such_file) None)
      = ([], None)"
    using VirtCheck_Run_cases
      [of "host (''none\<newline>'', Some exit_status_1) (Inl no_such_file) None"
          "''none\<newline>''" "Some exit_status_1"]
    by (simp add: trim_none)
  have b: "VirtCheck_Run (host ([], Some exit_status_1) (Inl no_such_file) None)
      = ([], Some exit_status_1)"
    using VirtCheck_Run_cases
      [of "host ([], Some exit_status_1) (Inl no_such_file) None" "[]" "Some exit_status_1"]
    by (simp add: trim_empty)
  have c: "VirtCheck_Run (host (''kvm\<newline>'', None) (Inl no_such_file) None)
      = (''System is virtualized (kvm) which is not supported in production.'', None)"
    using VirtCheck_Run_cases
      [of "host (''kvm\<newline>'', None) (Inl no_such_file) None" "''kvm\<newline>''" None]
    by (simp add: trim_kvm)
  from a b c show ?thesis by simp
qed

subsection \<open>KVMHostCheck\<close>

text \<open>
  C6. \<open>KVMHostCheck.Run\<close> returns a message that is not empty exactly when the
  \<open>Stat\<close> of the device node fails with an error for which
  \<open>errors.Is(err, fs.ErrNotExist)\<close> holds; the message then says that
  hardware-assisted virtualization is required and that /dev/kvm does not exist, and
  the error is nil. When the node exists the message is empty and the error nil; any
  other error of \<open>Stat\<close> is returned as it is, with an empty message.
\<close>

theorem KVMHostCheck_Run_cases:
  "(fst (KVMHostCheck_Run e) \<noteq> [] \<longleftrightarrow>
      (\<exists>err. os_Stat e devKvm = Some err \<and> is_ErrNotExist err)) \<and>
   ((\<exists>err. os_Stat e devKvm = Some err \<and> is_ErrNotExist err) \<longrightarrow>
      KVMHostCheck_Run e =
        (''SaftOS requires hardware-assisted virtualization, but /dev/kvm does not exist.'',
         None)) \<and>
   (os_Stat e devKvm = None \<longrightarrow> KVMHostCheck_Run e = ([], None)) \<and>
   (\<forall>err. os_Stat e devKvm = Some err \<and> \<not> is_ErrNotExist err \<longrightarrow>
      KVMHostCheck_Run e = ([], Some err))"
  by (cases "os_Stat e devKvm") (auto simp: KVMHostCheck_Run_def)

theorem KVMHostCheck_Run_cases_witness:
  "KVMHostCheck_Run (host ([], None) (Inl no_such_file) (Some no_such_file)) =
     (''SaftOS requires hardware-assisted virtualization, but /dev/kvm does not exist.'',
      None) \<and>
   KVMHostCheck_Run (host ([], None) (Inl no_such_file) None) = ([], None) \<and>
   KVMHostCheck_Run (host ([], None) (Inl no_such_file) (Some permission_denied)) =
     ([], Some permission_denied)"
proof -
  have a: "KVMHostCheck_Run (host ([], None) (Inl no_such_file) (Some no_such_file)) =
     (''SaftOS requires hardware-assisted virtualization, but /dev/kvm does not exist.'',
      None)"
    using KVMHostCheck_Run_cases [of "host ([], None) (Inl no_such_file) (Some no_such_file)"]
    by (simp add: no_such_file_def)
  have b: "KVMHostCheck_Run (host ([], None) (Inl no_such_file) None) = ([], None)"
    using KVMHostCheck_Run_cases [of "host ([], None) (Inl no_such_file) None"]
    by simp
  have c: "KVMHostCheck_Run (host ([], None) (Inl no_such_file) (Some permission_denied)) =
     ([], Some permission_denied)"
    using KVMHostCheck_Run_cases
      [of "host ([], None) (Inl no_such_file) (Some permission_denied)"]
    by (simp add: permission_denied_def)
  from a b c show ?thesis by simp
qed

subsection \<open>NetworkSpeedCheck: a speed that cannot be used\<close>









subsection \<open>The two channels of a result\<close>

lemma memory_report_error: "snd (memory_report memTotalKiB wiggleRoom) = None"
  by (simp add: memory_report_def Let_def)

lemma CPUCheck_Run_channels: "fst (CPUCheck_Run e) = [] \<or> snd (CPUCheck_Run e) = None"
  by (auto simp: CPUCheck_Run_def Let_def split: prod.splits option.splits)

lemma MemoryCheck_Run_channels:
  "fst (MemoryCheck_Run e) = [] \<or> snd (MemoryCheck_Run e) = None"
  by (auto simp: MemoryCheck_Run_def Let_def memory_report_error split: sum.splits)

lemma VirtCheck_Run_channels: "fst (VirtCheck_Run e) = [] \<or> snd (VirtCheck_Run e) = None"
  by (auto simp: VirtCheck_Run_def Let_def split: prod.splits option.splits)

lemma KVMHostCheck_Run_channels:
  "fst (KVMHostCheck_Run e) = [] \<or> snd (KVMHostCheck_Run e) = None"
  by (auto simp: KVMHostCheck_Run_def split: option.splits)

lemma NetworkSpeedCheck_Run_channels:
  "fst (NetworkSpeedCheck_Run e Dev) = [] \<or> snd (NetworkSpeedCheck_Run e Dev) = None"
  by (auto simp: NetworkSpeedCheck_Run_def Let_def split: sum.splits)

text \<open>
  C9. For each of the five checks and whatever the commands and the file system
  answer, \<open>Run\<close> never returns both a message that is not empty and an error that
  is not nil.
\<close>

theorem Run_message_or_error: "fst (Run e c) = [] \<or> snd (Run e c) = None"
proof (cases c)
  case CPUCheck
  then show ?thesis using CPUCheck_Run_channels by simp
next
  case MemoryCheck
  then show ?thesis using MemoryCheck_Run_channels by simp
next
  case VirtCheck
  then show ?thesis using VirtCheck_Run_channels by simp
next
  case KVMHostCheck
  then show ?thesis using KVMHostCheck_Run_channels by simp
next
  case (NetworkSpeedCheck Dev)
  then show ?thesis using NetworkSpeedCheck_Run_channels by simp
qed

theorem Run_message_or_error_witness:
  "fst (Run (host (''none\<newline>'', None) (Inr ''-1\<newline>'') (Some permission_denied))
          (NetworkSpeedCheck ''eth0'')) = [] \<or>
   snd (Run (host (''none\<newline>'', None) (Inr ''-1\<newline>'') (Some permission_denied))
          (NetworkSpeedCheck ''eth0'')) = None"
  using Run_message_or_error
    [of "host (''none\<newline>'', None) (Inr ''-1\<newline>'') (Some permission_denied)"
        "NetworkSpeedCheck ''eth0''"]
  by simp

subsection \<open>Sscanf stores operands of the kinds of its verbs\<close>

lemma doScanf_shape:
  "map val_verb (doScanf items s) = take (length (doScanf items s)) (verbs items)"
proof (induction items arbitrary: s)
  case Nil
  show ?case by simp
next
  case (Cons item items)
  show ?case
  proof (cases item)
    case (Lit c)
    then show ?thesis using Cons.IH by (auto split: list.splits)
  next
    case Blank
    then show ?thesis using Cons.IH by (auto split: option.splits)
  next
    case (Verb v)
    then show ?thesis using Cons.IH by (auto split: option.splits prod.splits)
  qed
qed

lemma verbs_Range_Size: "verbs (parse_format ''Range Size: %d %s'') = ''ds''"
  by simp

lemma verbs_MemTotal: "verbs (parse_format ''MemTotal: %d kB'') = ''d''"
  by simp

lemma Sscanf_Range_Size_count:
  "length (Sscanf s ''Range Size: %d %s'') = 2 \<longleftrightarrow>
     (\<exists>n u. Sscanf s ''Range Size: %d %s'' = [UintVal n, StringVal u])"
proof
  assume len: "length (Sscanf s ''Range Size: %d %s'') = 2"
  then obtain a b where ab: "Sscanf s ''Range Size: %d %s'' = [a, b]"
    by (auto simp: length_Suc_conv numeral_2_eq_2)
  have "map val_verb (Sscanf s ''Range Size: %d %s'') = ''ds''"
    unfolding Sscanf_def using doScanf_shape [of "parse_format ''Range Size: %d %s''" s] len
    unfolding Sscanf_def verbs_Range_Size by simp
  with ab have "val_verb a = CHR ''d''" "val_verb b = CHR ''s''" by simp_all
  then obtain n u where "a = UintVal n" "b = StringVal u"
    by (cases a; cases b) auto
  with ab show "\<exists>n u. Sscanf s ''Range Size: %d %s'' = [UintVal n, StringVal u]" by simp
next
  assume "\<exists>n u. Sscanf s ''Range Size: %d %s'' = [UintVal n, StringVal u]"
  then show "length (Sscanf s ''Range Size: %d %s'') = 2" by auto
qed

lemma Sscanf_MemTotal_count:
  "length (Sscanf s ''MemTotal: %d kB'') = 1 \<longleftrightarrow>
     (\<exists>n. Sscanf s ''MemTotal: %d kB'' = [UintVal n])"
proof
  assume len: "length (Sscanf s ''MemTotal: %d kB'') = 1"
  then obtain a where a: "Sscanf s ''MemTotal: %d kB'' = [a]"
    by (auto simp: length_Suc_conv)
  have "map val_verb (Sscanf s ''MemTotal: %d kB'') = ''d''"
    unfolding Sscanf_def using doScanf_shape [of "parse_format ''MemTotal: %d kB''" s] len
    unfolding Sscanf_def verbs_MemTotal by simp
  with a have "val_verb a = CHR ''d''" by simp
  then obtain n where "a = UintVal n" by (cases a) auto
  with a show "\<exists>n. Sscanf s ''MemTotal: %d kB'' = [UintVal n]" by simp
next
  assume "\<exists>n. Sscanf s ''MemTotal: %d kB'' = [UintVal n]"
  then show "length (Sscanf s ''MemTotal: %d kB'') = 1" by auto
qed

subsection \<open>MemoryCheck: the primary source\<close>

lemma range_record_count:
  "range_record line \<noteq> None \<longleftrightarrow>
     length (Sscanf (TrimSpace line) ''Range Size: %d %s'') = 2"
  unfolding Sscanf_Range_Size_count
  by (auto simp: range_record_def split: list.splits scan_val.splits)

lemma dmi_scan_step:
  "dmi_scan acc (line # lines) =
     (case range_record line of
        None \<Rightarrow> dmi_scan acc lines
      | Some (n, u) \<Rightarrow>
          if huge_unit u then
            (push_bit 30 1,
             [''Found Memory Array Mapped Address with Range Size '' @ fmt_du n
                @ '' '' @ u @ '', assuming 1 TiB RAM for preflight check''])
          else dmi_scan (acc + rangeSizeToKiB n u) lines)"
  by (simp add: dmi_scan.simps range_record_def split: list.splits scan_val.splits)

lemma dmi_scan_total:
  "fst (dmi_scan acc lines) =
     (if \<exists>r \<in> set (range_records lines). huge_unit (snd r) then 2 ^ 30
      else acc + sum_list (map (\<lambda>(n, u). rangeSizeToKiB n u) (range_records lines)))"
proof (induction lines arbitrary: acc)
  case Nil
  show ?case by (simp add: dmi_scan.simps range_records_def)
next
  case (Cons line lines)
  show ?case
  proof (cases "range_record line")
    case None
    then show ?thesis
      using Cons.IH [of acc]
      by (simp only: dmi_scan_step) (simp add: range_records_def map_filter_simps)
  next
    case (Some r)
    obtain n u where r: "r = (n, u)" by (cases r)
    show ?thesis
    proof (cases "huge_unit u")
      case True
      with Some r show ?thesis
        by (simp only: dmi_scan_step) (simp add: range_records_def map_filter_simps)
    next
      case False
      with Some r show ?thesis
        using Cons.IH [of "acc + rangeSizeToKiB n u"]
        by (simp only: dmi_scan_step)
          (simp add: range_records_def map_filter_simps add.assoc)
    qed
  qed
qed

lemma records_512GiB: "range_records (Split_nl dmidecode_512GiB) = [(2, ''GB''), (510, ''GB'')]"
  by code_simp

lemma report_512GiB: "memory_report 536870912 1 = ([], None)"
  by code_simp

lemma dmi_total_512GiB: "dmi_total (host (dmidecode_512GiB, None) file st) = 512 * 2 ^ 20"
  by (simp add: dmi_total_def dmi_scan_total records_512GiB huge_unit_def rangeSizeToKiB_def)

text \<open>
  C1. When the SMBIOS dump command succeeds, the primary total in KiB is computed from
  the records of the lines on which the scan of \<open>Range Size: <n> <unit>\<close> stores both
  operands: it is \<open>2 ^ 30\<close> (1 TiB) when a record has the unit TB, PB, EB or ZB, the
  scan ending at the first such record whatever was added before and whatever
  follows, and otherwise the sum over all records of \<open>n\<close> shifted left by 20 for GB,
  by 10 for MB, unchanged for kB and shifted right by 10 for bytes. A total that is
  not zero is reported with the multiplier 1.0, so that the total in GiB is compared
  with 32 and 64 themselves. The records 2 GB and 510 GB give 512 GiB, for which the
  message is empty and the error nil.
\<close>

theorem MemoryCheck_primary_total:
  "(execCommand e ''/usr/sbin/dmidecode'' [''-t'', ''19''] = (out, None) \<longrightarrow>
      dmi_total e =
        (if \<exists>r \<in> set (range_records (Split_nl out)). huge_unit (snd r) then 2 ^ 30
         else sum_list (map (\<lambda>(n, u). rangeSizeToKiB n u) (range_records (Split_nl out)))) \<and>
      (dmi_total e \<noteq> 0 \<longrightarrow>
         MemoryCheck_Run e = memory_report (dmi_total e) 1 \<and>
         MemoryCheck_Run e =
           (let gib = drop_bit 20 (dmi_total e);
                reported = (if gib < 1 then fmt_du (drop_bit 10 (dmi_total e)) @ ''MiB''
                            else fmt_du gib @ ''GiB'')
            in if gib < 32 then
                 (''Only '' @ reported @ '' RAM detected. SaftOS requires at least 32GiB for testing and 64GiB for production use.'',
                  None)
               else if gib < 64 then
                 (reported @ '' RAM detected. SaftOS requires at least 64GiB for production use.'',
                  None)
               else ([], None)))) \<and>
   (range_record line = Some (n, u) \<and> huge_unit u \<longrightarrow>
      fst (dmi_scan acc (line # lines)) = 2 ^ 30) \<and>
   (huge_unit u \<longleftrightarrow> u \<in> {''TB'', ''PB'', ''EB'', ''ZB''}) \<and>
   rangeSizeToKiB n ''GB'' = push_bit 20 n \<and>
   rangeSizeToKiB n ''MB'' = push_bit 10 n \<and>
   rangeSizeToKiB n ''kB'' = n \<and>
   rangeSizeToKiB n ''bytes'' = drop_bit 10 n \<and>
   range_records (Split_nl dmidecode_512GiB) = [(2, ''GB''), (510, ''GB'')] \<and>
   dmi_total (host (dmidecode_512GiB, None) file st) = 512 * 2 ^ 20 \<and>
   MemoryCheck_Run (host (dmidecode_512GiB, None) file st) = ([], None)"
proof -
  have total: "dmi_total e =
        (if \<exists>r \<in> set (range_records (Split_nl out)). huge_unit (snd r) then 2 ^ 30
         else sum_list (map (\<lambda>(n, u). rangeSizeToKiB n u) (range_records (Split_nl out))))"
    if "execCommand e ''/usr/sbin/dmidecode'' [''-t'', ''19''] = (out, None)"
    using that by (simp add: dmi_total_def dmi_scan_total)
  have run: "MemoryCheck_Run e = memory_report (dmi_total e) 1 \<and>
      MemoryCheck_Run e =
        (let gib = drop_bit 20 (dmi_total e);
              reported = (if gib < 1 then fmt_du (drop_bit 10 (dmi_total e)) @ ''MiB''
                          else fmt_du gib @ ''GiB'')
          in if gib < 32 then
               (''Only '' @ reported @ '' RAM detected. SaftOS requires at least 32GiB for testing and 64GiB for production use.'',
                None)
             else if gib < 64 then
               (reported @ '' RAM detected. SaftOS requires at least 64GiB for production use.'',
                None)
             else ([], None))"
    if "dmi_total e \<noteq> 0"
  proof -
    from that have "MemoryCheck_Run e = memory_report (dmi_total e) 1"
      by (simp add: MemoryCheck_Run_def Let_def)
    then show ?thesis by (simp only: memory_report_primary)
  qed
  have stop: "fst (dmi_scan acc (line # lines)) = 2 ^ 30"
    if "range_record line = Some (n, u)" "huge_unit u"
    using that by (simp only: dmi_scan_step) simp
  have units: "huge_unit u \<longleftrightarrow> u \<in> {''TB'', ''PB'', ''EB'', ''ZB''}"
    by (auto simp: huge_unit_def)
  have conv: "rangeSizeToKiB n ''GB'' = push_bit 20 n" "rangeSizeToKiB n ''MB'' = push_bit 10 n"
    "rangeSizeToKiB n ''kB'' = n" "rangeSizeToKiB n ''bytes'' = drop_bit 10 n"
    by (simp_all add: rangeSizeToKiB_def)
  have "dmi_total (host (dmidecode_512GiB, None) file st) \<noteq> 0"
    by (simp add: dmi_total_512GiB)
  then have sample: "MemoryCheck_Run (host (dmidecode_512GiB, None) file st) = ([], None)"
    by (simp add: MemoryCheck_Run_def Let_def dmi_total_512GiB report_512GiB)
  show ?thesis
    using total run stop units conv records_512GiB dmi_total_512GiB sample
    by blast
qed
lemma records_clamped:
  "range_records (Split_nl ''Range Size: 2 GB\<newline>Range Size: 3 PB\<newline>Range Size: 2 GB'') =
     [(2, ''GB''), (3, ''PB''), (2, ''GB'')]"
  by code_simp

lemma records_mixed:
  "range_records (Split_nl ''Range Size: 16 GB\<newline>Range Size: 1024 MB\<newline>Size: 1 GB'') =
     [(16, ''GB''), (1024, ''MB'')]"
  by code_simp

lemma report_1TiB: "memory_report 1073741824 1 = ([], None)"
  by code_simp

lemma report_17GiB:
  "memory_report 17825792 1 =
     (''Only 17GiB RAM detected. SaftOS requires at least 32GiB for testing and 64GiB for production use.'',
      None)"
  by code_simp

theorem MemoryCheck_primary_total_witness:
  "dmi_total (host (''Range Size: 2 GB\<newline>Range Size: 3 PB\<newline>Range Size: 2 GB'', None)
       (Inl no_such_file) None) = 2 ^ 30 \<and>
   MemoryCheck_Run (host (''Range Size: 2 GB\<newline>Range Size: 3 PB\<newline>Range Size: 2 GB'', None)
       (Inl no_such_file) None) = ([], None) \<and>
   dmi_total (host (''Range Size: 16 GB\<newline>Range Size: 1024 MB\<newline>Size: 1 GB'', None)
       (Inl no_such_file) None) = 17 * 2 ^ 20 \<and>
   MemoryCheck_Run (host (''Range Size: 16 GB\<newline>Range Size: 1024 MB\<newline>Size: 1 GB'', None)
       (Inl no_such_file) None) =
     (''Only 17GiB RAM detected. SaftOS requires at least 32GiB for testing and 64GiB for production use.'',
      None)"
proof -
  let ?h1 = "host (''Range Size: 2 GB\<newline>Range Size: 3 PB\<newline>Range Size: 2 GB'', None)
       (Inl no_such_file) None"
  let ?h2 = "host (''Range Size: 16 GB\<newline>Range Size: 1024 MB\<newline>Size: 1 GB'', None)
       (Inl no_such_file) None"
  have t1: "dmi_total ?h1 = 1073741824"
    using MemoryCheck_primary_total
      [where e = ?h1
         and out = "''Range Size: 2 GB\<newline>Range Size: 3 PB\<newline>Range Size: 2 GB''"]
    by (simp add: records_clamped huge_unit_def)
  have r1: "MemoryCheck_Run ?h1 = ([], None)"
    using MemoryCheck_primary_total
      [where e = ?h1
         and out = "''Range Size: 2 GB\<newline>Range Size: 3 PB\<newline>Range Size: 2 GB''"] t1
    by (simp add: report_1TiB)
  have t2: "dmi_total ?h2 = 17825792"
    using MemoryCheck_primary_total
      [where e = ?h2
         and out = "''Range Size: 16 GB\<newline>Range Size: 1024 MB\<newline>Size: 1 GB''"]
    by (simp add: records_mixed huge_unit_def rangeSizeToKiB_def)
  have r2: "MemoryCheck_Run ?h2 =
     (''Only 17GiB RAM detected. SaftOS requires at least 32GiB for testing and 64GiB for production use.'',
      None)"
    using MemoryCheck_primary_total
      [where e = ?h2
         and out = "''Range Size: 16 GB\<newline>Range Size: 1024 MB\<newline>Size: 1 GB''"] t2
    by (simp add: report_17GiB)
  from t1 r1 t2 r2 show ?thesis by simp
qed

subsection \<open>MemoryCheck: the fallback\<close>

lemma meminfo_scan_step:
  "meminfo_scan acc (t # texts) =
     (if length (Sscanf t ''MemTotal: %d kB'') = 1
      then (case Sscanf t ''MemTotal: %d kB'' of [UintVal n] \<Rightarrow> n | _ \<Rightarrow> acc)
      else meminfo_scan acc texts)"
proof (cases "length (Sscanf t ''MemTotal: %d kB'') = 1")
  case True
  then obtain n where "Sscanf t ''MemTotal: %d kB'' = [UintVal n]"
    using Sscanf_MemTotal_count by blast
  then show ?thesis by (simp add: meminfo_scan.simps)
next
  case False
  then have "\<And>n. Sscanf t ''MemTotal: %d kB'' \<noteq> [UintVal n]"
    by auto
  with False show ?thesis
    by (simp add: meminfo_scan.simps split: list.splits scan_val.splits)
qed

lemma meminfo_scan_no_match:
  "\<forall>t \<in> set texts. length (Sscanf t ''MemTotal: %d kB'') \<noteq> 1 \<Longrightarrow>
     meminfo_scan acc texts = acc"
  by (induction texts) (simp_all add: meminfo_scan.simps(1) meminfo_scan_step)

lemma meminfo_scan_first:
  "\<forall>t \<in> set pre. length (Sscanf t ''MemTotal: %d kB'') \<noteq> 1 \<Longrightarrow>
   Sscanf l ''MemTotal: %d kB'' = [UintVal v] \<Longrightarrow>
     meminfo_scan acc (pre @ l # post) = v"
  by (induction pre) (simp_all add: meminfo_scan_step)

lemma scanner_texts_subset: "set (scanner_texts s) \<subseteq> set (map dropCR (raw_lines s))"
  by (auto simp: scanner_texts_def dest: set_takeWhileD)

lemma dmi_total_failed:
  "execCommand e ''/usr/sbin/dmidecode'' [''-t'', ''19''] = (out, Some err) \<Longrightarrow> dmi_total e = 0"
  by (simp add: dmi_total_def)

lemma dmi_total_fallback_host [simp]: "dmi_total (fallback_host meminfo) = 0"
  by (simp add: fallback_host_def dmi_total_def)

lemma os_Open_fallback_host [simp]: "os_Open (fallback_host meminfo) path = Inr meminfo"
  by (simp add: fallback_host_def)

text \<open>
  C8. When the primary total is zero, \<open>MemoryCheck.Run\<close> returns an empty message
  and an error in two cases: when \<open>/proc/meminfo\<close> cannot be opened, the error of
  \<open>Open\<close>; when no line of the whole file is one from which the scan for
  \<open>MemTotal\<close> stores its operand (and already when none of the texts the scanner
  yields is), the error ``unable to extract MemTotal from /proc/meminfo'', which is
  none of the errors \<open>Open\<close> can return.
\<close>

theorem MemoryCheck_fallback_errors:
  "dmi_total e = 0 \<longrightarrow>
     (\<forall>err. os_Open e procMemInfo = Inl err \<longrightarrow> MemoryCheck_Run e = ([], Some err)) \<and>
     (\<forall>meminfo. os_Open e procMemInfo = Inr meminfo \<and>
        (\<forall>t \<in> set (map dropCR (raw_lines meminfo)).
            length (Sscanf t ''MemTotal: %d kB'') \<noteq> 1) \<longrightarrow>
        MemoryCheck_Run e =
          ([], Some (ErrorString ''unable to extract MemTotal from /proc/meminfo''))) \<and>
     (\<forall>meminfo. os_Open e procMemInfo = Inr meminfo \<and>
        (\<forall>t \<in> set (scanner_texts meminfo).
            length (Sscanf t ''MemTotal: %d kB'') \<noteq> 1) \<longrightarrow>
        MemoryCheck_Run e =
          ([], Some (ErrorString ''unable to extract MemTotal from /proc/meminfo''))) \<and>
     (\<forall>msg ne. ErrorString ''unable to extract MemTotal from /proc/meminfo''
        \<noteq> ExternalError msg ne)"
proof (intro impI conjI allI)
  fix err
  assume "dmi_total e = 0" "os_Open e procMemInfo = Inl err"
  then show "MemoryCheck_Run e = ([], Some err)"
    by (simp add: MemoryCheck_Run_def)
next
  fix meminfo
  assume zero: "dmi_total e = 0"
    and opened: "os_Open e procMemInfo = Inr meminfo \<and>
      (\<forall>t \<in> set (scanner_texts meminfo). length (Sscanf t ''MemTotal: %d kB'') \<noteq> 1)"
  then have "meminfo_scan 0 (scanner_texts meminfo) = 0"
    by (simp add: meminfo_scan_no_match)
  with zero opened show "MemoryCheck_Run e =
      ([], Some (ErrorString ''unable to extract MemTotal from /proc/meminfo''))"
    by (simp add: MemoryCheck_Run_def)
next
  fix meminfo
  assume zero: "dmi_total e = 0"
    and opened: "os_Open e procMemInfo = Inr meminfo \<and>
      (\<forall>t \<in> set (map dropCR (raw_lines meminfo)).
          length (Sscanf t ''MemTotal: %d kB'') \<noteq> 1)"
  then have "\<forall>t \<in> set (scanner_texts meminfo). length (Sscanf t ''MemTotal: %d kB'') \<noteq> 1"
    using scanner_texts_subset [of meminfo] by blast
  then have "meminfo_scan 0 (scanner_texts meminfo) = 0"
    by (simp add: meminfo_scan_no_match)
  with zero opened show "MemoryCheck_Run e =
      ([], Some (ErrorString ''unable to extract MemTotal from /proc/meminfo''))"
    by (simp add: MemoryCheck_Run_def)
next
  fix msg ne
  show "ErrorString ''unable to extract MemTotal from /proc/meminfo'' \<noteq> ExternalError msg ne"
    by simp
qed

lemma lines_no_MemTotal:
  "map dropCR (raw_lines ''MemFree:   32856636 kB\<newline>Cached: 5 kB\<newline>'') =
     [''MemFree:   32856636 kB'', ''Cached: 5 kB'']"
  by code_simp

lemma Sscanf_MemFree: "Sscanf ''MemFree:   32856636 kB'' ''MemTotal: %d kB'' = []"
  by code_simp

lemma Sscanf_Cached: "Sscanf ''Cached: 5 kB'' ''MemTotal: %d kB'' = []"
  by code_simp

theorem MemoryCheck_fallback_errors_witness:
  "dmi_total (host ([], Some exit_status_1) (Inl permission_denied) None) = 0 \<and>
   MemoryCheck_Run (host ([], Some exit_status_1) (Inl permission_denied) None) =
     ([], Some permission_denied) \<and>
   dmi_total (fallback_host ''MemFree:   32856636 kB\<newline>Cached: 5 kB\<newline>'') = 0 \<and>
   MemoryCheck_Run (fallback_host ''MemFree:   32856636 kB\<newline>Cached: 5 kB\<newline>'') =
     ([], Some (ErrorString ''unable to extract MemTotal from /proc/meminfo''))"
proof -
  have z: "dmi_total (host ([], Some exit_status_1) (Inl permission_denied) None) = 0"
    by (simp add: dmi_total_def)
  have a: "MemoryCheck_Run (host ([], Some exit_status_1) (Inl permission_denied) None) =
     ([], Some permission_denied)"
    using MemoryCheck_fallback_errors
      [of "host ([], Some exit_status_1) (Inl permission_denied) None"] z
    by simp
  have z': "dmi_total (fallback_host ''MemFree:   32856636 kB\<newline>Cached: 5 kB\<newline>'') = 0"
    by simp
  have opened: "os_Open (fallback_host ''MemFree:   32856636 kB\<newline>Cached: 5 kB\<newline>'')
      procMemInfo = Inr ''MemFree:   32856636 kB\<newline>Cached: 5 kB\<newline>''"
    by simp
  have nomatch: "\<forall>t \<in> set (map dropCR
        (raw_lines ''MemFree:   32856636 kB\<newline>Cached: 5 kB\<newline>'')).
      length (Sscanf t ''MemTotal: %d kB'') \<noteq> 1"
    unfolding lines_no_MemTotal by (simp add: Sscanf_MemFree Sscanf_Cached)
  have b: "MemoryCheck_Run (fallback_host ''MemFree:   32856636 kB\<newline>Cached: 5 kB\<newline>'') =
     ([], Some (ErrorString ''unable to extract MemTotal from /proc/meminfo''))"
    using MemoryCheck_fallback_errors
      [of "fallback_host ''MemFree:   32856636 kB\<newline>Cached: 5 kB\<newline>''"]
      z' opened nomatch
    by blast
  from z a b z' show ?thesis by simp
qed

text \<open>
  C10. When the primary total is zero and the first text of the scanner on
  \<open>/proc/meminfo\<close> from which the scan for \<open>MemTotal\<close> stores its operand carries
  the value 0, the loop ends at that text, whatever follows it, and
  \<open>MemoryCheck.Run\<close> returns the empty message and the error ``unable to extract
  MemTotal from /proc/meminfo'', as it does for a file without any such line.
\<close>

theorem MemoryCheck_MemTotal_zero:
  "dmi_total e = 0 \<and> os_Open e procMemInfo = Inr meminfo \<and>
   scanner_texts meminfo = pre @ l # post \<and>
   (\<forall>t \<in> set pre. length (Sscanf t ''MemTotal: %d kB'') \<noteq> 1) \<and>
   Sscanf l ''MemTotal: %d kB'' = [UintVal 0] \<longrightarrow>
     meminfo_scan 0 (pre @ l # post) = meminfo_scan 0 (pre @ [l]) \<and>
     MemoryCheck_Run e =
       ([], Some (ErrorString ''unable to extract MemTotal from /proc/meminfo'')) \<and>
     MemoryCheck_Run e = MemoryCheck_Run (fallback_host [])"
proof (intro impI)
  assume h: "dmi_total e = 0 \<and> os_Open e procMemInfo = Inr meminfo \<and>
   scanner_texts meminfo = pre @ l # post \<and>
   (\<forall>t \<in> set pre. length (Sscanf t ''MemTotal: %d kB'') \<noteq> 1) \<and>
   Sscanf l ''MemTotal: %d kB'' = [UintVal 0]"
  then have scan: "meminfo_scan 0 (pre @ l # post) = 0" "meminfo_scan 0 (pre @ [l]) = 0"
    by (simp_all add: meminfo_scan_first)
  with h have run: "MemoryCheck_Run e =
       ([], Some (ErrorString ''unable to extract MemTotal from /proc/meminfo''))"
    by (simp add: MemoryCheck_Run_def)
  have "scanner_texts [] = []"
    by (simp add: scanner_texts_def raw_lines_def Split_nl.simps)
  then have "MemoryCheck_Run (fallback_host []) =
       ([], Some (ErrorString ''unable to extract MemTotal from /proc/meminfo''))"
    by (simp add: MemoryCheck_Run_def meminfo_scan.simps)
  with scan run show "meminfo_scan 0 (pre @ l # post) = meminfo_scan 0 (pre @ [l]) \<and>
     MemoryCheck_Run e =
       ([], Some (ErrorString ''unable to extract MemTotal from /proc/meminfo'')) \<and>
     MemoryCheck_Run e = MemoryCheck_Run (fallback_host [])"
    by simp
qed

lemma texts_zero_then_value:
  "scanner_texts ''MemFree: 7 kB\<newline>MemTotal:        0 kB\<newline>MemTotal:   32856636 kB\<newline>'' =
     [''MemFree: 7 kB''] @ ''MemTotal:        0 kB'' # [''MemTotal:   32856636 kB'']"
  by code_simp

lemma Sscanf_MemFree_7: "Sscanf ''MemFree: 7 kB'' ''MemTotal: %d kB'' = []"
  by code_simp

lemma Sscanf_MemTotal_0: "Sscanf ''MemTotal:        0 kB'' ''MemTotal: %d kB'' = [UintVal 0]"
  by code_simp

theorem MemoryCheck_MemTotal_zero_witness:
  "scanner_texts ''MemFree: 7 kB\<newline>MemTotal:        0 kB\<newline>MemTotal:   32856636 kB\<newline>'' =
     [''MemFree: 7 kB''] @ ''MemTotal:        0 kB'' # [''MemTotal:   32856636 kB''] \<and>
   length (Sscanf ''MemFree: 7 kB'' ''MemTotal: %d kB'') \<noteq> 1 \<and>
   Sscanf ''MemTotal:        0 kB'' ''MemTotal: %d kB'' = [UintVal 0] \<and>
   MemoryCheck_Run
     (fallback_host ''MemFree: 7 kB\<newline>MemTotal:        0 kB\<newline>MemTotal:   32856636 kB\<newline>'') =
     ([], Some (ErrorString ''unable to extract MemTotal from /proc/meminfo''))"
proof -
  have "MemoryCheck_Run
     (fallback_host ''MemFree: 7 kB\<newline>MemTotal:        0 kB\<newline>MemTotal:   32856636 kB\<newline>'') =
     ([], Some (ErrorString ''unable to extract MemTotal from /proc/meminfo''))"
    using MemoryCheck_MemTotal_zero
      [where e = "fallback_host ''MemFree: 7 kB\<newline>MemTotal:        0 kB\<newline>MemTotal:   32856636 kB\<newline>''"
         and meminfo = "''MemFree: 7 kB\<newline>MemTotal:        0 kB\<newline>MemTotal:   32856636 kB\<newline>''"
         and pre = "[''MemFree: 7 kB'']" and l = "''MemTotal:        0 kB''"
         and post = "[''MemTotal:   32856636 kB'']"]
      texts_zero_then_value
    by (simp add: Sscanf_MemFree_7 Sscanf_MemTotal_0)
  then show ?thesis
    using texts_zero_then_value by (simp add: Sscanf_MemFree_7 Sscanf_MemTotal_0)
qed

subsection \<open>MemoryCheck: the tiers of the fallback\<close>

lemma wiggleRoom_value: "f32_round (9 / 10) = 7549747 / 8388608"
  by code_simp

lemma test_threshold: "f32_mul (of_int MinMemoryTest) (7549747 / 8388608) = 7549747 / 262144"
  by code_simp

lemma prod_threshold: "f32_mul (of_int MinMemoryProd) (7549747 / 8388608) = 7549747 / 131072"
  by code_simp

lemma memory_report_fallback:
  "memory_report v (f32_round (9 / 10)) =
     (let gib = drop_bit 20 v;
          reported = (if gib < 1 then fmt_du (drop_bit 10 v) @ ''MiB'' else fmt_du gib @ ''GiB'')
      in if float32_of_uint gib < 7549747 / 262144 then
           (''Only '' @ reported @ '' RAM detected. SaftOS requires at least 32GiB for testing and 64GiB for production use.'',
            None)
         else if float32_of_uint gib < 7549747 / 131072 then
           (reported @ '' RAM detected. SaftOS requires at least 64GiB for production use.'', None)
         else ([], None))"
  unfolding memory_report_def wiggleRoom_value test_threshold prod_threshold word_div_shift
    fmt_d_thresholds
  by (simp add: Let_def)

lemma texts_32GiB: "scanner_texts ''MemTotal:   32856636 kB'' = [] @ ''MemTotal:   32856636 kB'' # []"
  by code_simp

lemma Sscanf_32GiB: "Sscanf ''MemTotal:   32856636 kB'' ''MemTotal: %d kB'' = [UintVal 32856636]"
  by code_simp

lemma reported_32GiB:
  "drop_bit 20 (32856636 :: 64 word) = 31" "fmt_du 31 = ''31''" "float32_of_uint 31 = 31"
  by code_simp+

text \<open>
  C2, as stated, fails: a file whose only line is \<open>MemTotal: 0 kB\<close> contains a
  parsable MemTotal line, and \<open>MemoryCheck.Run\<close> returns the error ``unable to
  extract MemTotal from /proc/meminfo'' instead of comparing 0 GiB with the
  thresholds, which would give the message for both tiers.
\<close>

theorem MemoryCheck_fallback_zero_counterexample:
  "dmi_total (fallback_host ''MemTotal:        0 kB\<newline>'') = 0 \<and>
   os_Open (fallback_host ''MemTotal:        0 kB\<newline>'') procMemInfo =
     Inr ''MemTotal:        0 kB\<newline>'' \<and>
   scanner_texts ''MemTotal:        0 kB\<newline>'' = [''MemTotal:        0 kB''] \<and>
   Sscanf ''MemTotal:        0 kB'' ''MemTotal: %d kB'' = [UintVal 0] \<and>
   MemoryCheck_Run (fallback_host ''MemTotal:        0 kB\<newline>'') =
     ([], Some (ErrorString ''unable to extract MemTotal from /proc/meminfo'')) \<and>
   memory_report 0 (f32_round (9 / 10)) =
     (''Only 0MiB RAM detected. SaftOS requires at least 32GiB for testing and 64GiB for production use.'',
      None)"
proof -
  have texts: "scanner_texts ''MemTotal:        0 kB\<newline>'' = [''MemTotal:        0 kB'']"
    by code_simp
  have scan: "Sscanf ''MemTotal:        0 kB'' ''MemTotal: %d kB'' = [UintVal 0]"
    by code_simp
  have run: "MemoryCheck_Run (fallback_host ''MemTotal:        0 kB\<newline>'') =
     ([], Some (ErrorString ''unable to extract MemTotal from /proc/meminfo''))"
    by (simp add: MemoryCheck_Run_def texts meminfo_scan.simps scan)
  have report: "memory_report 0 (f32_round (9 / 10)) =
     (''Only 0MiB RAM detected. SaftOS requires at least 32GiB for testing and 64GiB for production use.'',
      None)"
    by code_simp
  from texts scan run report show ?thesis by simp
qed

text \<open>
  C2, amended. When the primary total is zero and the first text the scanner yields
  on \<open>/proc/meminfo\<close> from which the scan for \<open>MemTotal\<close> stores its operand
  carries a value \<open>v\<close> that is not zero, \<open>MemoryCheck.Run\<close> converts \<open>v\<close> shifted
  right by 20 to \<open>float32\<close> and compares it with each tier minimum multiplied by
  the \<open>float32\<close> 0.9, that is with the \<open>float32\<close> values next to 28.8 and 57.6:
  below the first (less than 29 GiB) the message names both tiers, below the second
  (less than 58 GiB) the production tier only, and otherwise it is empty; the error
  is nil. For a file that holds
  only \<open>MemTotal:   32856636 kB\<close> the reported value is 31GiB, which passes the test
  tier and fails the production tier, and the message names the production tier only.
\<close>

theorem MemoryCheck_fallback_tiers:
  "(dmi_total e = 0 \<and> os_Open e procMemInfo = Inr meminfo \<and>
    scanner_texts meminfo = pre @ l # post \<and>
    (\<forall>t \<in> set pre. length (Sscanf t ''MemTotal: %d kB'') \<noteq> 1) \<and>
    Sscanf l ''MemTotal: %d kB'' = [UintVal v] \<and> v \<noteq> 0 \<longrightarrow>
      MemoryCheck_Run e = memory_report v (f32_round (9 / 10)) \<and>
      MemoryCheck_Run e =
        (let gib = drop_bit 20 v;
             reported = (if gib < 1 then fmt_du (drop_bit 10 v) @ ''MiB''
                         else fmt_du gib @ ''GiB'')
         in if float32_of_uint gib < f32_mul 32 (f32_round (9 / 10)) then
              (''Only '' @ reported @ '' RAM detected. SaftOS requires at least 32GiB for testing and 64GiB for production use.'',
               None)
            else if float32_of_uint gib < f32_mul 64 (f32_round (9 / 10)) then
              (reported @ '' RAM detected. SaftOS requires at least 64GiB for production use.'',
               None)
            else ([], None)) \<and>
      MemoryCheck_Run e =
        (let gib = drop_bit 20 v;
             reported = (if gib < 1 then fmt_du (drop_bit 10 v) @ ''MiB''
                         else fmt_du gib @ ''GiB'')
         in if gib < 29 then
              (''Only '' @ reported @ '' RAM detected. SaftOS requires at least 32GiB for testing and 64GiB for production use.'',
               None)
            else if gib < 58 then
              (reported @ '' RAM detected. SaftOS requires at least 64GiB for production use.'',
               None)
            else ([], None))) \<and>
   (float32_of_uint g < f32_mul 32 (f32_round (9 / 10)) \<longleftrightarrow> g < 29) \<and>
   (float32_of_uint g < f32_mul 64 (f32_round (9 / 10)) \<longleftrightarrow> g < 58) \<and>
   f32_mul 32 (f32_round (9 / 10)) = 7549747 / 262144 \<and>
   f32_mul 64 (f32_round (9 / 10)) = 7549747 / 131072 \<and>
   \<bar>7549747 / 262144 - 288 / 10\<bar> < (1 / 100000 :: rat) \<and>
   \<bar>7549747 / 131072 - 576 / 10\<bar> < (1 / 100000 :: rat) \<and>
   drop_bit 20 (32856636 :: 64 word) = 31 \<and>
   \<not> float32_of_uint 31 < f32_mul 32 (f32_round (9 / 10)) \<and>
   float32_of_uint 31 < f32_mul 64 (f32_round (9 / 10)) \<and>
   MemoryCheck_Run (fallback_host ''MemTotal:   32856636 kB'') =
     (''31GiB RAM detected. SaftOS requires at least 64GiB for production use.'', None)"
proof -
  have t32: "f32_mul 32 (f32_round (9 / 10)) = 7549747 / 262144"
    using test_threshold by (simp add: wiggleRoom_value MinMemoryTest_def)
  have t64: "f32_mul 64 (f32_round (9 / 10)) = 7549747 / 131072"
    using prod_threshold by (simp add: wiggleRoom_value MinMemoryProd_def)
  have run: "MemoryCheck_Run e = memory_report v (f32_round (9 / 10))"
    if "dmi_total e = 0" "os_Open e procMemInfo = Inr meminfo"
      "scanner_texts meminfo = pre @ l # post"
      "\<forall>t \<in> set pre. length (Sscanf t ''MemTotal: %d kB'') \<noteq> 1"
      "Sscanf l ''MemTotal: %d kB'' = [UintVal v]" "v \<noteq> 0"
    for e meminfo pre l post v
  proof -
    from that have "meminfo_scan 0 (scanner_texts meminfo) = v"
      by (simp add: meminfo_scan_first)
    with that show ?thesis
      by (simp add: MemoryCheck_Run_def)
  qed
  have sample: "MemoryCheck_Run (fallback_host ''MemTotal:   32856636 kB'') =
     (''31GiB RAM detected. SaftOS requires at least 64GiB for production use.'', None)"
    using run [of "fallback_host ''MemTotal:   32856636 kB''" "''MemTotal:   32856636 kB''"
        "[]" "''MemTotal:   32856636 kB''" "[]" 32856636]
    by (simp add: texts_32GiB Sscanf_32GiB memory_report_fallback reported_32GiB)
  have general: "MemoryCheck_Run e = memory_report v (f32_round (9 / 10)) \<and>
      MemoryCheck_Run e =
        (let gib = drop_bit 20 v;
             reported = (if gib < 1 then fmt_du (drop_bit 10 v) @ ''MiB''
                         else fmt_du gib @ ''GiB'')
         in if float32_of_uint gib < f32_mul 32 (f32_round (9 / 10)) then
              (''Only '' @ reported @ '' RAM detected. SaftOS requires at least 32GiB for testing and 64GiB for production use.'',
               None)
            else if float32_of_uint gib < f32_mul 64 (f32_round (9 / 10)) then
              (reported @ '' RAM detected. SaftOS requires at least 64GiB for production use.'',
               None)
            else ([], None)) \<and>
      MemoryCheck_Run e =
        (let gib = drop_bit 20 v;
             reported = (if gib < 1 then fmt_du (drop_bit 10 v) @ ''MiB''
                         else fmt_du gib @ ''GiB'')
         in if gib < 29 then
              (''Only '' @ reported @ '' RAM detected. SaftOS requires at least 32GiB for testing and 64GiB for production use.'',
               None)
            else if gib < 58 then
              (reported @ '' RAM detected. SaftOS requires at least 64GiB for production use.'',
               None)
            else ([], None))"
    if "dmi_total e = 0 \<and> os_Open e procMemInfo = Inr meminfo \<and>
      scanner_texts meminfo = pre @ l # post \<and>
      (\<forall>t \<in> set pre. length (Sscanf t ''MemTotal: %d kB'') \<noteq> 1) \<and>
      Sscanf l ''MemTotal: %d kB'' = [UintVal v] \<and> v \<noteq> 0"
    using run [of e meminfo pre l post v] that
    by (simp only: t32 t64 memory_report_fallback float32_of_uint_less_wiggle) simp
  have near: "\<bar>7549747 / 262144 - 288 / 10\<bar> < (1 / 100000 :: rat)"
    "\<bar>7549747 / 131072 - 576 / 10\<bar> < (1 / 100000 :: rat)"
    by simp_all
  have cmp: "\<not> float32_of_uint 31 < f32_mul 32 (f32_round (9 / 10))"
    "float32_of_uint 31 < f32_mul 64 (f32_round (9 / 10))"
    by (simp_all add: t32 t64 reported_32GiB)
  have int: "float32_of_uint g < f32_mul 32 (f32_round (9 / 10)) \<longleftrightarrow> g < 29"
    "float32_of_uint g < f32_mul 64 (f32_round (9 / 10)) \<longleftrightarrow> g < 58"
    by (simp_all only: t32 t64 float32_of_uint_less_wiggle)
  show ?thesis
    using general int t32 t64 near reported_32GiB(1) cmp sample by blast
qed

lemma texts_64GiB:
  "scanner_texts ''MemFree: 7 kB\<newline>MemTotal:       65758888 kB\<newline>'' =
     [''MemFree: 7 kB''] @ ''MemTotal:       65758888 kB'' # []"
  by code_simp

lemma Sscanf_64GiB:
  "Sscanf ''MemTotal:       65758888 kB'' ''MemTotal: %d kB'' = [UintVal 65758888]"
  by code_simp

lemma report_64GiB: "memory_report 65758888 (f32_round (9 / 10)) = ([], None)"
  by code_simp

theorem MemoryCheck_fallback_tiers_witness:
  "dmi_total (fallback_host ''MemFree: 7 kB\<newline>MemTotal:       65758888 kB\<newline>'') = 0 \<and>
   scanner_texts ''MemFree: 7 kB\<newline>MemTotal:       65758888 kB\<newline>'' =
     [''MemFree: 7 kB''] @ ''MemTotal:       65758888 kB'' # [] \<and>
   length (Sscanf ''MemFree: 7 kB'' ''MemTotal: %d kB'') \<noteq> 1 \<and>
   Sscanf ''MemTotal:       65758888 kB'' ''MemTotal: %d kB'' = [UintVal 65758888] \<and>
   MemoryCheck_Run (fallback_host ''MemFree: 7 kB\<newline>MemTotal:       65758888 kB\<newline>'') =
     ([], None)"
proof -
  let ?meminfo = "''MemFree: 7 kB\<newline>MemTotal:       65758888 kB\<newline>''"
  note T = MemoryCheck_fallback_tiers
    [where e = "fallback_host ?meminfo" and meminfo = ?meminfo and pre = "[''MemFree: 7 kB'']"
       and l = "''MemTotal:       65758888 kB''" and post = "[]" and v = 65758888,
     THEN conjunct1, THEN mp, THEN conjunct1]
  have H: "dmi_total (fallback_host ?meminfo) = 0 \<and>
    os_Open (fallback_host ?meminfo) procMemInfo = Inr ?meminfo \<and>
    scanner_texts ?meminfo = [''MemFree: 7 kB''] @ ''MemTotal:       65758888 kB'' # [] \<and>
    (\<forall>t \<in> set [''MemFree: 7 kB'']. length (Sscanf t ''MemTotal: %d kB'') \<noteq> 1) \<and>
    Sscanf ''MemTotal:       65758888 kB'' ''MemTotal: %d kB'' = [UintVal 65758888] \<and>
    (65758888 :: 64 word) \<noteq> 0"
    by (simp add: texts_64GiB Sscanf_64GiB Sscanf_MemFree_7)
  from T [OF H] have "MemoryCheck_Run (fallback_host ?meminfo) = ([], None)"
    by (simp only: report_64GiB)
  with H show ?thesis by (simp add: Sscanf_MemFree_7)
qed

subsection \<open>NetworkSpeedCheck: the tiers\<close>

lemma speed_2500: "fst (Atoi (TrimSpace ''2500\<newline>'')) = 2500"
  by code_simp

lemma Gbps_2500: "f32_div (float32_of_int 2500) 1000 = 5 / 2"
  by code_simp

lemma fmt_g_2500: "fmt_g (5 / 2) = ''2.5''"
  by code_simp

lemma NetworkSpeedCheck_Run_usable:
  "os_ReadFile e (sysClassNetDevSpeed Dev) = Inr out \<Longrightarrow> 1 \<le> fst (Atoi (TrimSpace out)) \<Longrightarrow>
     NetworkSpeedCheck_Run e Dev =
       (let m = fst (Atoi (TrimSpace out)); g = f32_div (float32_of_int m) 1000 in
        if g < 1 then
          (''Link speed of '' @ Dev @ '' is only '' @ fmt_d m
             @ ''Mpbs. SaftOS requires at least 1Gbps for testing and 10Gbps for production use.'',
           None)
        else if g < 10 then
          (''Link speed of '' @ Dev @ '' is '' @ fmt_g g
             @ ''Gbps. SaftOS requires at least 10Gbps for production use.'', None)
        else ([], None))"
  by (simp add: NetworkSpeedCheck_Run_def Let_def fmt_d_thresholds)
    (simp add: MinNetworkGbpsTest_def MinNetworkGbpsProd_def)

text \<open>
  C4. When the speed file is read and the value \<open>m\<close> that \<open>Atoi\<close> gives for its
  trimmed content is at least 1, \<open>NetworkSpeedCheck.Run\<close> computes \<open>g\<close>, the
  \<open>float32\<close> quotient of \<open>m\<close> converted to \<open>float32\<close> by 1000. If \<open>g < 1\<close> the message
  states \<open>m\<close> as the Mbps figure and both minimums, 1 Gbps and 10 Gbps; else if
  \<open>g < 10\<close> it states \<open>g\<close>, printed with \<open>%g\<close>, as the Gbps figure and the production
  minimum only; else it is empty; the error is nil in the three cases. The first case
  is that of \<open>m < 1000\<close> and the second that of \<open>1000 \<le> m < 10000\<close>. For the content
  \<open>2500\<close> the quotient is 2.5, printed \<open>2.5\<close>: the test tier passes, the production
  tier fails and the message reports 2.5Gbps.
\<close>

theorem NetworkSpeedCheck_Run_tiers:
  "(os_ReadFile e (sysClassNetDevSpeed Dev) = Inr out \<and> 1 \<le> fst (Atoi (TrimSpace out)) \<longrightarrow>
      NetworkSpeedCheck_Run e Dev =
        (let m = fst (Atoi (TrimSpace out)); g = f32_div (float32_of_int m) 1000 in
         if g < 1 then
           (''Link speed of '' @ Dev @ '' is only '' @ fmt_d m
              @ ''Mpbs. SaftOS requires at least 1Gbps for testing and 10Gbps for production use.'',
            None)
         else if g < 10 then
           (''Link speed of '' @ Dev @ '' is '' @ fmt_g g
              @ ''Gbps. SaftOS requires at least 10Gbps for production use.'', None)
         else ([], None))) \<and>
   (1 \<le> m \<longrightarrow>
      (f32_div (float32_of_int m) 1000 < 1 \<longleftrightarrow> m < 1000) \<and>
      (f32_div (float32_of_int m) 1000 < 10 \<longleftrightarrow> m < 10000)) \<and>
   f32_div (float32_of_int 2500) 1000 = 5 / 2 \<and>
   fmt_g (5 / 2) = ''2.5'' \<and>
   NetworkSpeedCheck_Run (host cmd (Inr ''2500\<newline>'') st) ''eth0'' =
     (''Link speed of eth0 is 2.5Gbps. SaftOS requires at least 10Gbps for production use.'',
      None)"
proof -
  have "NetworkSpeedCheck_Run (host cmd (Inr ''2500\<newline>'') st) ''eth0'' =
     (''Link speed of eth0 is 2.5Gbps. SaftOS requires at least 10Gbps for production use.'',
      None)"
    using NetworkSpeedCheck_Run_usable
      [of "host cmd (Inr ''2500\<newline>'') st" "''eth0''" "''2500\<newline>''"]
    by (simp add: speed_2500 Gbps_2500 fmt_g_2500 Let_def)
  then show ?thesis
    using NetworkSpeedCheck_Run_usable [of e Dev out] Gbps_less_1 [of m] Gbps_less_10 [of m]
      Gbps_2500 fmt_g_2500
    by blast
qed

lemma speed_100: "fst (Atoi (TrimSpace ''100\<newline>'')) = 100"
  by code_simp

lemma Gbps_100: "f32_div (float32_of_int 100) 1000 = 13421773 / 134217728"
  by code_simp

lemma speed_10000: "fst (Atoi (TrimSpace ''10000\<newline>'')) = 10000"
  by code_simp

lemma Gbps_10000: "f32_div (float32_of_int 10000) 1000 = 10"
  by code_simp

theorem NetworkSpeedCheck_Run_tiers_witness:
  "NetworkSpeedCheck_Run (host ([], None) (Inr ''100\<newline>'') None) ''eth0'' =
     (''Link speed of eth0 is only 100Mpbs. SaftOS requires at least 1Gbps for testing and 10Gbps for production use.'',
      None) \<and>
   NetworkSpeedCheck_Run (host ([], None) (Inr ''10000\<newline>'') None) ''eth0'' = ([], None)"
proof -
  have d: "fmt_d 100 = ''100''"
    by code_simp
  have a: "NetworkSpeedCheck_Run (host ([], None) (Inr ''100\<newline>'') None) ''eth0'' =
     (''Link speed of eth0 is only 100Mpbs. SaftOS requires at least 1Gbps for testing and 10Gbps for production use.'',
      None)"
    using NetworkSpeedCheck_Run_tiers
      [where e = "host ([], None) (Inr ''100\<newline>'') None" and Dev = "''eth0''"
         and out = "''100\<newline>''", THEN conjunct1]
    by (simp add: speed_100 Gbps_100 d Let_def)
  have b: "NetworkSpeedCheck_Run (host ([], None) (Inr ''10000\<newline>'') None) ''eth0'' =
     ([], None)"
    using NetworkSpeedCheck_Run_tiers
      [where e = "host ([], None) (Inr ''10000\<newline>'') None" and Dev = "''eth0''"
         and out = "''10000\<newline>''", THEN conjunct1]
    by (simp add: speed_10000 Gbps_10000 Let_def)
  from a b show ?thesis by simp
qed

end
